theory Spec2Isabelle
  imports Main "HOL-Library.List_Lexorder" "HOL-Library.Char_ord"
begin

section \<open>Values, operators and entity parameters\<close>

text \<open>
  The data of \<^verbatim>\<open>interfaces/base.dao.interface.ts\<close>. A column value is a JavaScript
  value: \<open>null\<close>/\<open>undefined\<close> (both are nil to lodash's \<open>isNil\<close> and to \<open>??\<close>, so one
  constructor stands for both), a number (integers only), a string, a boolean, an array,
  a \<open>FieldQuery\<close> object \<open>{ operator?, value }\<close>, the only object the SQL compiler looks
  into, or one of the built-in values that every plain object inherits from
  \<open>Object.prototype\<close> (\<open>item.toString\<close>, \<open>item.constructor\<close>, ...), named by its property. An
  entity parameter is a plain object; it is kept as the list of its own enumerable
  properties in enumeration order.
\<close>

datatype operator = OpEq | OpNe | OpLt | OpLe | OpGt | OpGe | OpLike | OpIn | OpNotIn | OpBetween

datatype jsval =
    Null
  | Num int
  | Str string
  | Bool bool
  | Arr "jsval list"
  | FieldQuery "operator option" jsval
  | Builtin string

type_synonym entity_parameter = "(string \<times> jsval) list"

datatype entity_parameters =
    NoEntity
  | OneEntity entity_parameter
  | ManyEntities "entity_parameter list"

datatype dao_method = Find | Insert | Update | Delete

datatype like_mode = Raw | Contains | StartsWith | EndsWith

datatype unknown_mode = Ignore | Throw

datatype direction = ASC | DESC

text \<open>
  An entry of \<open>orderBy\<close>: a column name, an object \<open>{ column, direction? }\<close>, \<open>null\<close>, or
  anything else (\<open>undefined\<close>, a number, an object without \<open>column\<close>).
\<close>

datatype order_item =
  OrderColumn string | OrderSpec string "direction option" | OrderNull | OrderOther

text \<open>
  \<open>MaybeArray<string>\<close> for the \<open>columnFiltered\<close> arguments; \<open>NoColumn\<close> is \<open>null\<close> (an omitted
  argument takes the parameter's default, \<open>OneColumn ''id''\<close>).
\<close>

datatype column_filter = NoColumn | OneColumn string | ManyColumns "string list"

text \<open>
  An \<open>Error\<close> object: the class, the name it was built with, and the message after the
  prefix; or a \<open>TypeError\<close> of the JavaScript runtime with its message.
\<close>

datatype error = SqlError string string | DaoError string string | TypeError string

record value_key =
  "value" :: jsval
  key :: string

record query_type =
  sql :: string
  params :: "(string \<times> value_key) list"

text \<open>
  The option objects of \<^verbatim>\<open>sql.ts\<close> are structurally typed and every field is optional;
  one record holds the fields that the compiler functions read. The fields \<open>skip\<close> and \<open>take\<close>
  are \<open>skip_opt\<close> and \<open>take_opt\<close> here, and \<open>None\<close> is an absent (or nil) field.
\<close>

record options =
  escapeChar :: "string option"
  columnsList :: "string list option"
  onUnknownColumn :: "unknown_mode option"
  inChunkSize :: "nat option"
  likeMode :: "like_mode option"
  skip_opt :: "int option"
  take_opt :: "int option"
  orderBy :: "order_item list option"
  defaultOrderBy :: "string option"

definition noOptions :: options where
  "noOptions = \<lparr>escapeChar = None, columnsList = None, onUnknownColumn = None,
     inChunkSize = None, likeMode = None, skip_opt = None, take_opt = None, orderBy = None,
     defaultOrderBy = None\<rparr>"

text \<open>The module constants, with the environment variables unset.\<close>

definition DEFAULT_TAKE :: int where
  "DEFAULT_TAKE = 100"

definition DEFAULT_IN_CHUNK :: nat where
  "DEFAULT_IN_CHUNK = 800"

definition DEFAULT_LIKE_MODE :: like_mode where
  "DEFAULT_LIKE_MODE = Raw"

definition DEFAULT_UNKNOWN_COLUMN :: unknown_mode where
  "DEFAULT_UNKNOWN_COLUMN = Ignore"

section \<open>Strings\<close>

definition digitChar :: "nat \<Rightarrow> char" where
  "digitChar d = ''0123456789'' ! d"

text \<open>Template-literal rendering of a non-negative integer.\<close>

function numToString :: "nat \<Rightarrow> string" where
  "numToString n =
     (if n < 10 then [digitChar n] else numToString (n div 10) @ [digitChar (n mod 10)])"
  by pat_completeness auto
termination
  by (relation "measure id") auto

declare numToString.simps [simp del]

definition intToString :: "int \<Rightarrow> string" where
  "intToString i = (if i < 0 then CHR ''-'' # numToString (nat (- i)) else numToString (nat i))"

fun join :: "string list \<Rightarrow> string \<Rightarrow> string" where
  "join [] sep = []"
| "join [x] sep = x"
| "join (x # y # ys) sep = x @ sep @ join (y # ys) sep"

fun methodStr :: "dao_method \<Rightarrow> string" where
  "methodStr Find = ''find''"
| "methodStr Insert = ''insert''"
| "methodStr Update = ''update''"
| "methodStr Delete = ''delete''"

fun operatorStr :: "operator \<Rightarrow> string" where
  "operatorStr OpEq = ''=''"
| "operatorStr OpNe = ''!=''"
| "operatorStr OpLt = ''<''"
| "operatorStr OpLe = ''<=''"
| "operatorStr OpGt = ''>''"
| "operatorStr OpGe = ''>=''"
| "operatorStr OpLike = ''LIKE''"
| "operatorStr OpIn = ''IN''"
| "operatorStr OpNotIn = ''NOT IN''"
| "operatorStr OpBetween = ''BETWEEN''"

section \<open>Errors (\<^verbatim>\<open>errors/sql.error.ts\<close>, \<^verbatim>\<open>errors/dao.error.ts\<close>)\<close>

definition sqlActionError :: "string \<Rightarrow> dao_method \<Rightarrow> string \<Rightarrow> error" where
  "sqlActionError tableName action message =
     SqlError tableName (message @ '' for '' @ methodStr action)"

definition invalidOrderBy :: "string \<Rightarrow> dao_method \<Rightarrow> string \<Rightarrow> error" where
  "invalidOrderBy tableName action item =
     sqlActionError tableName action (''Invalid orderBy '' @ item)"

definition invalidOrderByColumn :: "string \<Rightarrow> dao_method \<Rightarrow> error" where
  "invalidOrderByColumn tableName action = invalidOrderBy tableName action ''column''"

definition invalidBetween :: "string \<Rightarrow> dao_method \<Rightarrow> error" where
  "invalidBetween tableName action = sqlActionError tableName action ''Invalid between values''"

definition unknownColumn :: "string \<Rightarrow> dao_method \<Rightarrow> string \<Rightarrow> error" where
  "unknownColumn tableName action item =
     sqlActionError tableName action (''Unknown column name '' @ item)"

text \<open>
  The errors of the runtime that the code can run into: \<open>'column' in o\<close> on \<open>null\<close>, and
  \<open>zodColumn.meta()\<close> on \<open>undefined\<close>.
\<close>

definition inOperatorOnNull :: error where
  "inOperatorOnNull =
     TypeError (''Cannot use '' @ [CHR 0x27] @ ''in'' @ [CHR 0x27] @ '' operator to search for ''
                @ [CHR 0x27] @ ''column'' @ [CHR 0x27] @ '' in null'')"

definition metaOfUndefined :: error where
  "metaOfUndefined =
     TypeError (''Cannot read properties of undefined (reading '' @ [CHR 0x27] @ ''meta''
                @ [CHR 0x27] @ '')'')"

definition daoActionError :: "string \<Rightarrow> dao_method \<Rightarrow> string \<Rightarrow> error" where
  "daoActionError className action message =
     DaoError className (message @ '' for '' @ methodStr action)"

definition noColumn :: "string \<Rightarrow> dao_method \<Rightarrow> error" where
  "noColumn className action = daoActionError className action ''No columns''"

definition noId :: "string \<Rightarrow> dao_method \<Rightarrow> error" where
  "noId className action = daoActionError className action ''Missing id''"

section \<open>lodash helpers\<close>

fun isNil :: "jsval \<Rightarrow> bool" where
  "isNil Null = True"
| "isNil _ = False"

fun ensureArray :: "entity_parameters \<Rightarrow> entity_parameter list" where
  "ensureArray NoEntity = []"
| "ensureArray (OneEntity item) = [item]"
| "ensureArray (ManyEntities items) = items"

text \<open>\<open>ensureArray\<close> at the type of a column value.\<close>

fun ensureArrayValue :: "jsval \<Rightarrow> jsval list" where
  "ensureArrayValue Null = []"
| "ensureArrayValue (Arr vs) = vs"
| "ensureArrayValue v = [v]"

text \<open>
  \<open>item[column]\<close>: the own property; else what \<open>Object.prototype\<close> has under that name; else
  \<open>undefined\<close>.
\<close>

definition objectPrototypeNames :: "string list" where
  "objectPrototypeNames =
     [''constructor'', ''__defineGetter__'', ''__defineSetter__'', ''hasOwnProperty'',
      ''__lookupGetter__'', ''__lookupSetter__'', ''isPrototypeOf'', ''propertyIsEnumerable'',
      ''toString'', ''valueOf'', ''__proto__'', ''toLocaleString'']"

definition getProp :: "entity_parameter \<Rightarrow> string \<Rightarrow> jsval" where
  "getProp item column =
     (case map_of item column of
        Some v \<Rightarrow> v
      | None \<Rightarrow> if column \<in> set objectPrototypeNames then Builtin column else Null)"

text \<open>
  lodash's \<open>forEach\<close> and \<open>size\<close> take an object for array-like when its \<open>length\<close> is a number
  that is an integer from 0 to \<open>Number.MAX_SAFE_INTEGER\<close> (\<open>isArrayLike\<close>, \<open>isLength\<close>).
  \<open>forEach\<close> then calls back with the indices below \<open>length\<close> as keys and \<open>item[index]\<close> as
  values, and with the own enumerable properties otherwise.
\<close>

definition MAX_SAFE_INTEGER :: int where
  "MAX_SAFE_INTEGER = 9007199254740991"

definition arrayLikeLength :: "entity_parameter \<Rightarrow> nat option" where
  "arrayLikeLength item =
     (case map_of item ''length'' of
        Some (Num n) \<Rightarrow> if 0 \<le> n \<and> n \<le> MAX_SAFE_INTEGER then Some (nat n) else None
      | _ \<Rightarrow> None)"

definition forEachEntries :: "entity_parameter \<Rightarrow> (string \<times> jsval) list" where
  "forEachEntries item =
     (case arrayLikeLength item of
        None \<Rightarrow> item
      | Some n \<Rightarrow> map (\<lambda>index. (numToString index, getProp item (numToString index))) [0..<n])"

text \<open>\<open>chunk(array, size)\<close>: no chunks at all when the size is below 1.\<close>

function chunk :: "'a list \<Rightarrow> nat \<Rightarrow> 'a list list" where
  "chunk xs n = (if n < 1 \<or> xs = [] then [] else take n xs # chunk (drop n xs) n)"
  by pat_completeness auto
termination
  by (relation "measure (\<lambda>(xs, n). length xs)") auto

declare chunk.simps [simp del]

text \<open>
  \<open>groupBy(pairs, 0)\<close> followed by \<open>mapValues\<close> that keeps the second components: the
  result object has one property per item index, and integer-like property names are
  enumerated in ascending numeric order.
\<close>

definition groupByIndex :: "(nat \<times> 'a) list \<Rightarrow> (nat \<times> 'a list) list" where
  "groupByIndex kvs =
     map (\<lambda>i. (i, map snd (filter (\<lambda>kv. fst kv = i) kvs))) (sort (remdups (map fst kvs)))"

section \<open>\<^verbatim>\<open>mapEntityItems\<close>\<close>

text \<open>
  A callback returns one pair or an array of pairs; \<open>mapEntityItems\<close> spreads an array
  of arrays and pushes anything else as one entry. A callback that throws aborts the
  traversal, so the first failing field in iteration order decides the error.
  \<open>mapItemFields\<close> is the inner \<open>forEach\<close> on the entries that lodash visits in an item,
  \<open>mapItemsFrom\<close> the outer one on the items.
\<close>

datatype 'r callback_result = Single 'r | Multiple "'r list"

fun pushed :: "'r callback_result \<Rightarrow> 'r list" where
  "pushed (Single r) = [r]"
| "pushed (Multiple rs) = rs"

fun unwrapFieldQuery :: "jsval \<Rightarrow> jsval \<times> operator" where
  "unwrapFieldQuery (FieldQuery opr v) = (v, (case opr of None \<Rightarrow> OpEq | Some p \<Rightarrow> p))"
| "unwrapFieldQuery v = (v, OpEq)"

type_synonym 'r callback = "jsval \<Rightarrow> string \<Rightarrow> operator \<Rightarrow> nat \<Rightarrow> error + 'r callback_result"

fun mapItemFields :: "'r callback \<Rightarrow> nat \<Rightarrow> (string \<times> jsval) list \<Rightarrow> error + 'r list" where
  "mapItemFields cb itemIndex [] = Inr []"
| "mapItemFields cb itemIndex ((itemKey, itemValue) # rest) =
     (case cb (fst (unwrapFieldQuery itemValue)) itemKey (snd (unwrapFieldQuery itemValue)) itemIndex of
        Inl e \<Rightarrow> Inl e
      | Inr r \<Rightarrow> (case mapItemFields cb itemIndex rest of
                    Inl e \<Rightarrow> Inl e
                  | Inr rs \<Rightarrow> Inr (pushed r @ rs)))"

fun mapItemsFrom :: "'r callback \<Rightarrow> nat \<Rightarrow> entity_parameter list \<Rightarrow> error + 'r list" where
  "mapItemsFrom cb itemIndex [] = Inr []"
| "mapItemsFrom cb itemIndex (item # items) =
     (case mapItemFields cb itemIndex (forEachEntries item) of
        Inl e \<Rightarrow> Inl e
      | Inr rs \<Rightarrow> (case mapItemsFrom cb (Suc itemIndex) items of
                     Inl e \<Rightarrow> Inl e
                   | Inr rs' \<Rightarrow> Inr (rs @ rs')))"

definition mapEntityItems :: "entity_parameters \<Rightarrow> 'r callback \<Rightarrow> error + 'r list" where
  "mapEntityItems entityParameters cb = mapItemsFrom cb 0 (ensureArray entityParameters)"

section \<open>Predicate compiler: \<^verbatim>\<open>toGroupParametersSql\<close>\<close>

definition sqlFragment ::
  "string \<Rightarrow> dao_method \<Rightarrow> options \<Rightarrow> jsval \<Rightarrow> string \<Rightarrow> operator \<Rightarrow> nat
     \<Rightarrow> error + (nat \<times> string) callback_result" where
  "sqlFragment tableName action opts itemValue keyStr opr itemIndex =
     (let onUnknown = (case onUnknownColumn opts of None \<Rightarrow> DEFAULT_UNKNOWN_COLUMN | Some m \<Rightarrow> m);
          chunkSize = (case inChunkSize opts of None \<Rightarrow> DEFAULT_IN_CHUNK | Some n \<Rightarrow> n);
          groupKey = keyStr @ ''_'' @ numToString itemIndex;
          esc = (case escapeChar opts of
                   None \<Rightarrow> []
                 | Some c \<Rightarrow> if c = [] then [] else '' ESCAPE '' @ [CHR 0x27] @ c @ [CHR 0x27])
      in
      if (case columnsList opts of None \<Rightarrow> False | Some cols \<Rightarrow> keyStr \<notin> set cols) then
        (if onUnknown = Ignore then Inr (Single (itemIndex, ''1=1''))
         else Inl (unknownColumn tableName action keyStr))
      else
        (case itemValue of
           Arr vs \<Rightarrow>
             if length vs = 0 then
               (if opr = OpNe \<or> opr = OpNotIn then Inr (Single (itemIndex, ''1=1''))
                else Inr (Single (itemIndex, ''1=0'')))
             else if opr = OpBetween then
               (if length vs \<noteq> 2 then Inl (invalidBetween tableName action)
                else Inr (Single (itemIndex,
                  ''['' @ keyStr @ ''] BETWEEN IIF(@'' @ groupKey @ ''_0 < @'' @ groupKey @ ''_1, @''
                  @ groupKey @ ''_0, @'' @ groupKey @ ''_1) AND IIF(@'' @ groupKey @ ''_0 > @''
                  @ groupKey @ ''_1, @'' @ groupKey @ ''_0, @'' @ groupKey @ ''_1)'')))
             else if opr = OpLike then
               Inr (Single (itemIndex,
                 ''('' @ join (map (\<lambda>i. ''['' @ keyStr @ ''] LIKE @'' @ groupKey @ ''_''
                                        @ numToString i @ esc) [0..<length vs]) '' OR '' @ '')''))
             else
               (let chunks = chunk vs chunkSize;
                    chunkClauses = map (\<lambda>(cidx, arr).
                      (let placeholders = join (map (\<lambda>i. ''@'' @ groupKey @ ''_'' @ numToString cidx
                                                       @ ''_'' @ numToString i) [0..<length arr]) '', ''
                       in if opr = OpNe \<or> opr = OpNotIn
                          then ''['' @ keyStr @ ''] NOT IN ('' @ placeholders @ '')''
                          else ''['' @ keyStr @ ''] IN ('' @ placeholders @ '')''))
                      (enumerate 0 chunks);
                    glue = (if opr = OpNotIn then '' AND '' else '' OR '')
                in Inr (Single (itemIndex, ''('' @ join chunkClauses glue @ '')'')))
         | _ \<Rightarrow>
             if isNil itemValue then
               (if opr = OpNe \<or> opr = OpNotIn
                then Inr (Single (itemIndex, ''['' @ keyStr @ ''] IS NOT NULL''))
                else Inr (Single (itemIndex, ''['' @ keyStr @ ''] IS NULL'')))
             else if opr = OpLike then
               Inr (Single (itemIndex, ''['' @ keyStr @ ''] LIKE @'' @ groupKey @ esc))
             else
               Inr (Single (itemIndex,
                 ''['' @ keyStr @ ''] '' @ operatorStr opr @ '' @'' @ groupKey))))"

definition toGroupParametersSql ::
  "string \<Rightarrow> dao_method \<Rightarrow> entity_parameters \<Rightarrow> options \<Rightarrow> error + (nat \<times> string list) list" where
  "toGroupParametersSql tableName action entityParameters opts =
     (case mapEntityItems entityParameters (sqlFragment tableName action opts) of
        Inl e \<Rightarrow> Inl e
      | Inr keyValueArray \<Rightarrow> Inr (groupByIndex keyValueArray))"

section \<open>Parameter binder: \<^verbatim>\<open>toGroupParametersKeyValue\<close> and \<^verbatim>\<open>getParams\<close>\<close>

text \<open>
  \<open>applyLikeValue\<close> turns the operand of a LIKE into the bound string (string coercion,
  escaping with \<open>replaceAll\<close>, wildcard wrapping). It only changes the value bound to a
  LIKE parameter, never a name or a fragment, and no property below depends on what it
  computes: it is a parameter \<open>alv\<close> of the binder, applied to the operand, the like mode
  and the escape character.
\<close>

type_synonym apply_like = "jsval \<Rightarrow> like_mode \<Rightarrow> string option \<Rightarrow> jsval"

definition keyValues ::
  "apply_like \<Rightarrow> string \<Rightarrow> dao_method \<Rightarrow> options \<Rightarrow> jsval \<Rightarrow> string \<Rightarrow> operator \<Rightarrow> nat
     \<Rightarrow> error + (string \<times> value_key) callback_result" where
  "keyValues alv tableName action opts itemValue keyStr opr itemIndex =
     (let chunkSize = (case inChunkSize opts of None \<Rightarrow> DEFAULT_IN_CHUNK | Some n \<Rightarrow> n);
          mode = (case likeMode opts of None \<Rightarrow> DEFAULT_LIKE_MODE | Some m \<Rightarrow> m);
          groupKey = keyStr @ ''_'' @ numToString itemIndex
      in
      case itemValue of
        Arr vs \<Rightarrow>
          if length vs = 0 then Inr (Multiple [])
          else if opr = OpBetween then
            (if length vs \<noteq> 2 then Inl (invalidBetween tableName action)
             else Inr (Multiple (map (\<lambda>(i, v).
                    (groupKey @ ''_'' @ numToString i, \<lparr>value = v, key = keyStr\<rparr>))
                    (enumerate 0 vs))))
          else if opr = OpLike then
            Inr (Multiple (map (\<lambda>(i, v).
                   (groupKey @ ''_'' @ numToString i,
                    \<lparr>value = alv v mode (escapeChar opts), key = keyStr\<rparr>))
                   (enumerate 0 vs)))
          else
            Inr (Multiple (concat (map (\<lambda>(cidx, arr).
                   map (\<lambda>(i, v).
                     (groupKey @ ''_'' @ numToString cidx @ ''_'' @ numToString i,
                      \<lparr>value = v, key = keyStr\<rparr>))
                     (enumerate 0 arr))
                   (enumerate 0 (chunk vs chunkSize)))))
      | _ \<Rightarrow>
          if isNil itemValue then Inr (Multiple [])
          else if opr = OpLike then
            Inr (Multiple [(groupKey, \<lparr>value = alv itemValue mode (escapeChar opts), key = keyStr\<rparr>)])
          else Inr (Multiple [(groupKey, \<lparr>value = itemValue, key = keyStr\<rparr>)]))"

definition toGroupParametersKeyValue ::
  "apply_like \<Rightarrow> string \<Rightarrow> dao_method \<Rightarrow> entity_parameters \<Rightarrow> options
     \<Rightarrow> error + (string \<times> value_key) list" where
  "toGroupParametersKeyValue alv tableName action entityParameters opts =
     mapEntityItems entityParameters (keyValues alv tableName action opts)"

text \<open>
  \<open>params[key] = v\<close> on a plain object: an existing property keeps its place and takes
  the new value, a new one is appended (parameter names are never integer-like).
\<close>

fun setProperty :: "(string \<times> 'v) list \<Rightarrow> string \<Rightarrow> 'v \<Rightarrow> (string \<times> 'v) list" where
  "setProperty [] k v = [(k, v)]"
| "setProperty ((k', v') # ps) k v =
     (if k' = k then (k, v) # ps else (k', v') # setProperty ps k v)"

definition getParams ::
  "apply_like \<Rightarrow> string \<Rightarrow> dao_method \<Rightarrow> entity_parameters \<Rightarrow> options
     \<Rightarrow> error + (string \<times> value_key) list" where
  "getParams alv tableName action entityParameters opts =
     (case toGroupParametersKeyValue alv tableName action entityParameters opts of
        Inl e \<Rightarrow> Inl e
      | Inr keyValueArray \<Rightarrow>
          Inr (foldl (\<lambda>ps (k, v). setProperty ps k \<lparr>value = value v, key = key v\<rparr>) [] keyValueArray))"

text \<open>A column passes the whitelist check when no whitelist is given or it is listed.\<close>

definition whitelisted :: "options \<Rightarrow> string \<Rightarrow> bool" where
  "whitelisted opts keyStr =
     (case columnsList opts of None \<Rightarrow> True | Some cols \<Rightarrow> keyStr \<in> set cols)"

section \<open>Statement builders\<close>

definition newline :: string where
  "newline = [CHR 0x0A]"

fun directionStr :: "direction \<Rightarrow> string" where
  "directionStr ASC = ''ASC''"
| "directionStr DESC = ''DESC''"

fun orderByTerms :: "string \<Rightarrow> string list \<Rightarrow> order_item list \<Rightarrow> error + string list" where
  "orderByTerms tableName cols [] = Inr []"
| "orderByTerms tableName cols (OrderNull # os) = Inl inOperatorOnNull"
| "orderByTerms tableName cols (OrderOther # os) = Inl (invalidOrderBy tableName Find ''item'')"
| "orderByTerms tableName cols (OrderColumn column # os) =
     (if column \<notin> set cols then Inl (invalidOrderByColumn tableName Find)
      else (case orderByTerms tableName cols os of
              Inl e \<Rightarrow> Inl e
            | Inr ts \<Rightarrow> Inr ((''['' @ column @ ''] '' @ directionStr ASC) # ts)))"
| "orderByTerms tableName cols (OrderSpec column dir # os) =
     (if column \<notin> set cols then Inl (invalidOrderByColumn tableName Find)
      else (case orderByTerms tableName cols os of
              Inl e \<Rightarrow> Inl e
            | Inr ts \<Rightarrow> Inr ((''['' @ column @ ''] ''
                         @ directionStr (case dir of None \<Rightarrow> ASC | Some d \<Rightarrow> d)) # ts)))"

text \<open>A number is truthy when it is not zero.\<close>

definition truthyNumber :: "int option \<Rightarrow> bool" where
  "truthyNumber n = (case n of None \<Rightarrow> False | Some i \<Rightarrow> i \<noteq> 0)"

definition buildOrderBySql :: "string \<Rightarrow> string list \<Rightarrow> options \<Rightarrow> error + string" where
  "buildOrderBySql tableName cols opts =
     (if (case orderBy opts of None \<Rightarrow> False | Some os \<Rightarrow> length os \<noteq> 0) then
        (case orderByTerms tableName cols (the (orderBy opts)) of
           Inl e \<Rightarrow> Inl e
         | Inr ts \<Rightarrow> Inr (''ORDER BY '' @ join ts '', ''))
      else if truthyNumber (skip_opt opts) \<or> truthyNumber (take_opt opts) then
        Inr (''ORDER BY ['' @ (case defaultOrderBy opts of None \<Rightarrow> ''created_at'' | Some c \<Rightarrow> c)
             @ ''] ASC'')
      else Inr [])"

text \<open>
  lodash \<open>size\<close> of the entity parameters: the length of an array or of an array-like
  object, the number of own keys of another object.
\<close>

fun sizeEntityParameters :: "entity_parameters \<Rightarrow> nat" where
  "sizeEntityParameters NoEntity = 0"
| "sizeEntityParameters (OneEntity item) =
     (case arrayLikeLength item of None \<Rightarrow> length item | Some n \<Rightarrow> n)"
| "sizeEntityParameters (ManyEntities items) = length items"

definition pagingSql :: "options \<Rightarrow> string" where
  "pagingSql opts =
     (if skip_opt opts \<noteq> None \<or> take_opt opts \<noteq> None
      then ''OFFSET '' @ intToString (case skip_opt opts of None \<Rightarrow> 0 | Some n \<Rightarrow> n)
           @ '' ROWS FETCH NEXT ''
           @ intToString (case take_opt opts of None \<Rightarrow> DEFAULT_TAKE | Some n \<Rightarrow> n)
           @ '' ROWS ONLY''
      else [])"

definition selectByColumnsSql ::
  "apply_like \<Rightarrow> string \<Rightarrow> string list \<Rightarrow> entity_parameters \<Rightarrow> options \<Rightarrow> error + query_type" where
  "selectByColumnsSql alv tableName cols entityParameters opts =
     (let baseSql = ''SELECT * FROM ['' @ tableName @ '']'' in
      case buildOrderBySql tableName cols
             (noOptions\<lparr>skip_opt := skip_opt opts, take_opt := take_opt opts, orderBy := orderBy opts,
                defaultOrderBy := defaultOrderBy opts\<rparr>) of
        Inl e \<Rightarrow> Inl e
      | Inr orderBySql \<Rightarrow>
          if sizeEntityParameters entityParameters = 0 then
            Inr \<lparr>sql = newline @ ''    '' @ baseSql @ newline @ ''    '' @ orderBySql @ newline
                        @ ''    '' @ pagingSql opts @ '';'' @ newline @ ''  '',
                 params = []\<rparr>
          else
            (case getParams alv tableName Find entityParameters
                    (noOptions\<lparr>inChunkSize := inChunkSize opts, likeMode := likeMode opts,
                       escapeChar := escapeChar opts\<rparr>) of
               Inl e \<Rightarrow> Inl e
             | Inr ps \<Rightarrow>
                 (case toGroupParametersSql tableName Find entityParameters
                         (noOptions\<lparr>inChunkSize := inChunkSize opts, columnsList := Some cols,
                            onUnknownColumn := Some Throw, escapeChar := escapeChar opts\<rparr>) of
                    Inl e \<Rightarrow> Inl e
                  | Inr groupedParametersSql \<Rightarrow>
                      (let sqlStatements =
                             map (\<lambda>(i, conditions). ''('' @ join conditions '' AND '' @ '')'')
                               groupedParametersSql;
                           whereSql = ''WHERE '' @ join sqlStatements '' OR ''
                       in Inr \<lparr>sql = newline @ ''    '' @ baseSql @ newline @ ''    '' @ whereSql
                                     @ newline @ ''    '' @ orderBySql @ newline @ ''    ''
                                     @ pagingSql opts @ '';'' @ newline @ ''  '',
                               params = ps\<rparr>))))"

section \<open>Shaping entity parameters\<close>

fun isArray :: "jsval \<Rightarrow> bool" where
  "isArray (Arr vs) = True"
| "isArray _ = False"

definition pickBy :: "(jsval \<Rightarrow> bool) \<Rightarrow> entity_parameter \<Rightarrow> entity_parameter" where
  "pickBy p item = filter (\<lambda>(k, v). p v) item"

definition omitBy :: "(jsval \<Rightarrow> bool) \<Rightarrow> entity_parameter \<Rightarrow> entity_parameter" where
  "omitBy p item = filter (\<lambda>(k, v). \<not> p v) item"

text \<open>\<open>pick\<close> builds its result path by path; \<open>omit\<close> copies the object without the paths.\<close>

definition pick :: "entity_parameter \<Rightarrow> string list \<Rightarrow> entity_parameter" where
  "pick item paths =
     foldl (\<lambda>r c. case map_of item c of None \<Rightarrow> r | Some v \<Rightarrow> setProperty r c v) [] paths"

definition omit :: "entity_parameter \<Rightarrow> string list \<Rightarrow> entity_parameter" where
  "omit item paths = filter (\<lambda>(k, v). k \<notin> set paths) item"

fun ensureArrayColumns :: "column_filter \<Rightarrow> string list" where
  "ensureArrayColumns NoColumn = []"
| "ensureArrayColumns (OneColumn c) = [c]"
| "ensureArrayColumns (ManyColumns cs) = cs"

datatype filter_operator = FilterIn | FilterOut

definition entityParametersFilter ::
  "entity_parameters \<Rightarrow> column_filter \<Rightarrow> filter_operator \<Rightarrow> entity_parameter list" where
  "entityParametersFilter entityParameters columnFiltered operator =
     (let items = ensureArray entityParameters in
      if columnFiltered = NoColumn then items
      else map (\<lambda>item. (if operator = FilterIn then pick else omit) item
                         (ensureArrayColumns columnFiltered)) items)"

text \<open>
  \<open>uniq\<close> keeps the first occurrence of each value under SameValueZero: primitives are
  compared by value, arrays and objects by reference (two array or object values of an
  input are taken to be different references).
\<close>

fun isPrimitive :: "jsval \<Rightarrow> bool" where
  "isPrimitive (Arr vs) = False"
| "isPrimitive (FieldQuery opr v) = False"
| "isPrimitive _ = True"

definition sameValueZero :: "jsval \<Rightarrow> jsval \<Rightarrow> bool" where
  "sameValueZero a b = (isPrimitive a \<and> a = b)"

definition uniq :: "jsval list \<Rightarrow> jsval list" where
  "uniq xs = foldl (\<lambda>seen x. if list_ex (\<lambda>y. sameValueZero y x) seen then seen else seen @ [x]) [] xs"

definition mergeEntityParametersById :: "entity_parameters \<Rightarrow> entity_parameter list" where
  "mergeEntityParametersById entityParameters =
     (let ids = concat (map (\<lambda>item.
                  (let keyItem = getProp item ''id'' in
                   if \<not> isNil keyItem then ensureArrayValue keyItem else []))
                (ensureArray entityParameters));
          uniqIds = uniq ids
      in [[(''id'', Arr uniqIds)]])"

definition prepareUpdateEntityParamsByKey ::
  "entity_parameters \<Rightarrow> string \<Rightarrow> entity_parameter list" where
  "prepareUpdateEntityParamsByKey entityParameters keyColumn =
     concat (map (\<lambda>item.
       (let keyItem = getProp item keyColumn in
        if isNil keyItem then []
        else map (\<lambda>k. setProperty item keyColumn k) (ensureArrayValue keyItem)))
       (ensureArray entityParameters))"

section \<open>Column-shape grouper\<close>

definition getColumnLists :: "entity_parameters \<Rightarrow> (nat \<times> string list) list" where
  "getColumnLists entityParameters =
     (case mapEntityItems entityParameters
             (\<lambda>itemValue itemKey opr itemIndex. Inr (Single (itemIndex, itemKey))) of
        Inl e \<Rightarrow> []
      | Inr keyValueArray \<Rightarrow> groupByIndex keyValueArray)"

text \<open>
  \<open>reversedGroups[sortedKey]\<close>: the property name is \<open>JSON.stringify\<close> of the sorted column
  list, which \<open>buildColumnsAndValuesSqlStatements\<close> reads back with \<open>JSON.parse\<close>. The
  serialisation is one-to-one on lists of strings, so the group is keyed by the sorted
  list itself. Properties are enumerated in insertion order. The item index is pushed as
  the property name of \<open>getColumnLists\<close>, the decimal string of the index.
\<close>

fun pushToGroup :: "('k \<times> 'v list) list \<Rightarrow> 'k \<Rightarrow> 'v \<Rightarrow> ('k \<times> 'v list) list" where
  "pushToGroup [] sortedKey v = [(sortedKey, [v])]"
| "pushToGroup ((k, vs) # groups) sortedKey v =
     (if k = sortedKey then (k, vs @ [v]) # groups else (k, vs) # pushToGroup groups sortedKey v)"

definition groupEntityParametersBySortedColumns ::
  "entity_parameters \<Rightarrow> (string list \<times> nat list) list" where
  "groupEntityParametersBySortedColumns entityParameters =
     foldl (\<lambda>reversedGroups (k, cols). pushToGroup reversedGroups (sort cols) k) []
       (getColumnLists entityParameters)"

record columns_values =
  columnSql :: string
  valuesSql :: string
  columns :: "string list"

definition buildColumnsAndValuesSqlStatements ::
  "(string list \<times> nat list) list \<Rightarrow> columns_values list" where
  "buildColumnsAndValuesSqlStatements grouped =
     map (\<lambda>(cols, ids).
       \<lparr>columnSql = ''(['' @ join cols ''],  ['' @ ''])'',
        valuesSql = join (map (\<lambda>i.
            ''('' @ join (map (\<lambda>col. ''@'' @ col @ ''_'' @ numToString i) cols) '', '' @ '')'')
            ids) '', '',
        columns = cols\<rparr>) grouped"

definition buildInsertSqlStatements :: "(string list \<times> nat list) list \<Rightarrow> string list" where
  "buildInsertSqlStatements grouped =
     map (\<lambda>cv. columnSql cv @ '' VALUES '' @ valuesSql cv)
       (buildColumnsAndValuesSqlStatements grouped)"

definition buildUpdateSqlStatements ::
  "(string list \<times> nat list) list \<Rightarrow> string \<Rightarrow> string list" where
  "buildUpdateSqlStatements grouped keyStr =
     map (\<lambda>cv.
       (let columnForSet = map (\<lambda>col. col @ '' = source.'' @ col)
                             (filter (\<lambda>c. c \<noteq> keyStr) (columns cv))
        in ''USING (VALUES'' @ newline @ ''    '' @ valuesSql cv @ newline
           @ ''  ) AS source'' @ columnSql cv @ '' '' @ newline
           @ ''   ON target.'' @ keyStr @ '' = source.'' @ keyStr @ newline
           @ ''   WHEN MATCHED THEN'' @ newline
           @ ''  UPDATE SET '' @ join columnForSet '', ''))
       (buildColumnsAndValuesSqlStatements grouped)"

section \<open>INSERT, MERGE and DELETE\<close>

definition insertSqlStatements :: "string \<Rightarrow> entity_parameter list \<Rightarrow> string list" where
  "insertSqlStatements tableName entityParametersFiltered =
     map (\<lambda>sqlStatement. ''INSERT INTO ['' @ tableName @ '']'' @ '' '' @ sqlStatement @ '';'')
       (buildInsertSqlStatements
          (groupEntityParametersBySortedColumns (ManyEntities entityParametersFiltered)))"

definition insertSql ::
  "apply_like \<Rightarrow> string \<Rightarrow> entity_parameters \<Rightarrow> column_filter \<Rightarrow> options \<Rightarrow> error + query_type" where
  "insertSql alv tableName entityParameters columnFiltered opts =
     (let entityParametersFiltered = entityParametersFilter entityParameters columnFiltered FilterOut in
      case getParams alv tableName Insert (ManyEntities entityParametersFiltered) opts of
        Inl e \<Rightarrow> Inl e
      | Inr ps \<Rightarrow>
          Inr \<lparr>sql = join (insertSqlStatements tableName entityParametersFiltered) newline,
               params = ps\<rparr>)"

definition updateSqlStatements :: "string \<Rightarrow> entity_parameter list \<Rightarrow> string \<Rightarrow> string list" where
  "updateSqlStatements tableName preparedUpdateEntityParams keyColumn =
     map (\<lambda>sqlStatement. ''MERGE INTO ['' @ tableName @ ''] AS target'' @ '' '' @ sqlStatement @ '';'')
       (buildUpdateSqlStatements
          (groupEntityParametersBySortedColumns (ManyEntities preparedUpdateEntityParams))
          keyColumn)"

definition updateByKeySql ::
  "apply_like \<Rightarrow> string \<Rightarrow> entity_parameters \<Rightarrow> string \<Rightarrow> options \<Rightarrow> error + query_type" where
  "updateByKeySql alv tableName entityParameters keyColumn opts =
     (let preparedUpdateEntityParams =
            (if keyColumn \<noteq> ''id''
             then prepareUpdateEntityParamsByKey
                    (ManyEntities (entityParametersFilter entityParameters (OneColumn ''id'') FilterOut))
                    keyColumn
             else prepareUpdateEntityParamsByKey entityParameters ''id'')
      in
      case getParams alv tableName Update (ManyEntities preparedUpdateEntityParams) opts of
        Inl e \<Rightarrow> Inl e
      | Inr ps \<Rightarrow>
          Inr \<lparr>sql = join (updateSqlStatements tableName preparedUpdateEntityParams keyColumn) newline,
               params = ps\<rparr>)"

definition deleteSqlStatements :: "string \<Rightarrow> (nat \<times> string list) list \<Rightarrow> string list" where
  "deleteSqlStatements tableName groupedParametersSql =
     map (\<lambda>(i, conditions).
            ''DELETE FROM ['' @ tableName @ '']'' @ '' WHERE ('' @ join conditions '' AND '' @ '');'')
       groupedParametersSql"

definition deleteByIdSql ::
  "apply_like \<Rightarrow> string \<Rightarrow> entity_parameters \<Rightarrow> options \<Rightarrow> error + query_type" where
  "deleteByIdSql alv tableName entityParameters opts =
     (let entityParametersFiltered = entityParametersFilter entityParameters (OneColumn ''id'') FilterIn;
          mergedEntityParameter = mergeEntityParametersById (ManyEntities entityParametersFiltered)
      in
      case getParams alv tableName Delete (ManyEntities mergedEntityParameter)
             (noOptions\<lparr>inChunkSize := inChunkSize opts\<rparr>) of
        Inl e \<Rightarrow> Inl e
      | Inr ps \<Rightarrow>
          (case toGroupParametersSql tableName Delete (ManyEntities mergedEntityParameter)
                  (noOptions\<lparr>inChunkSize := inChunkSize opts\<rparr>) of
             Inl e \<Rightarrow> Inl e
           | Inr groupedParametersSql \<Rightarrow>
               Inr \<lparr>sql = join (deleteSqlStatements tableName groupedParametersSql) newline,
                    params = ps\<rparr>))"

section \<open>DAO orchestrator (\<^verbatim>\<open>lib/base.dao.ts\<close>)\<close>

text \<open>
  What a DAO instance holds: the class name, the table name, and the entity schema. Of
  the schema only two observations are used: \<open>safeParse\<close> of the partial entity on an
  object (\<open>None\<close> on success, the prettified error text otherwise), and what \<open>getSqlType\<close>
  meets for a column: no such column in the schema, a column whose \<open>sqlType\<close> names no
  backend type, or a column with a backend type.
\<close>

datatype schema_column = NoSuchColumn | NoSqlType | SqlType

record dao =
  daoClassName :: string
  daoTableName :: string
  daoSafeParse :: "entity_parameter \<Rightarrow> string option"
  daoColumn :: "string \<Rightarrow> schema_column"

definition sqlTypeNotFound :: "string \<Rightarrow> dao_method \<Rightarrow> string \<Rightarrow> error" where
  "sqlTypeNotFound className action paramKey =
     daoActionError className action (''SQL type not found for '' @ paramKey)"

definition validateFieldError :: "string \<Rightarrow> (nat \<times> string) list \<Rightarrow> error" where
  "validateFieldError className errors =
     DaoError className
       (newline @ join (map (\<lambda>(k, v). ''['' @ numToString k @ '']: '' @ v) errors) newline)"

definition cleanParameters :: "entity_parameters \<Rightarrow> column_filter \<Rightarrow> entity_parameter list" where
  "cleanParameters data columnFiltered =
     (let items = ensureArray data;
          filtered = filter (\<lambda>item. item \<noteq> []) (map (pickBy (\<lambda>v. \<not> isNil v)) items)
      in
      if columnFiltered \<noteq> NoColumn \<and> columnFiltered \<noteq> OneColumn [] then
        filter (\<lambda>item. list_all (\<lambda>c. c \<in> set (map fst item)) (ensureArrayColumns columnFiltered))
          filtered
      else filtered)"

definition validateField :: "dao \<Rightarrow> entity_parameter list \<Rightarrow> error + entity_parameter list" where
  "validateField d items =
     (let failedPerItem = map (\<lambda>(index, item).
            (let arrayFields = pickBy isArray item;
                 rest = omitBy isArray item;
                 restResult = daoSafeParse d rest;
                 arrayResult = concat (map (\<lambda>(k, field).
                     map (\<lambda>v. daoSafeParse d [(k, v)]) (ensureArrayValue field)) arrayFields);
                 failedResults = concat (map (\<lambda>r. case r of None \<Rightarrow> [] | Some m \<Rightarrow> [m])
                                            (restResult # arrayResult))
             in (index, item, failedResults))) (enumerate 0 items);
          validated = map (\<lambda>(index, item, failed). item)
                        (filter (\<lambda>(index, item, failed). length failed = 0) failedPerItem);
          errorMessages = concat (map (\<lambda>(index, item, failed). map (\<lambda>m. (index, m)) failed)
                                    failedPerItem)
      in
      if length errorMessages > 0 then Inl (validateFieldError (daoClassName d) errorMessages)
      else Inr validated)"

definition defaultBeforeHook ::
  "dao \<Rightarrow> entity_parameters \<Rightarrow> dao_method \<Rightarrow> column_filter \<Rightarrow> error + entity_parameter list" where
  "defaultBeforeHook d data action columnFiltered =
     (let cleanedParameters = cleanParameters data columnFiltered in
      if length cleanedParameters = 0 \<and> action \<noteq> Find then
        (if columnFiltered = OneColumn ''id'' then Inl (noId (daoClassName d) action)
         else Inl (noColumn (daoClassName d) action))
      else validateField d cleanedParameters)"

text \<open>
  \<open>bindParams\<close> declares each parameter to the request; it fails on a column that the
  schema does not have (\<open>getSqlType\<close> calls \<open>meta\<close> on \<open>undefined\<close>) and on a column without
  a backend type. \<open>update\<close> and \<open>delete\<close> with the default before-hooks: the result is the
  statement and the parameters handed to \<open>request.query\<close>, or the error raised before.
\<close>

fun bindParams :: "dao \<Rightarrow> (string \<times> value_key) list \<Rightarrow> dao_method \<Rightarrow> error + (string \<times> value_key) list" where
  "bindParams d [] action = Inr []"
| "bindParams d ((k, v) # ps) action =
     (case daoColumn d (key v) of
        NoSuchColumn \<Rightarrow> Inl metaOfUndefined
      | NoSqlType \<Rightarrow> Inl (sqlTypeNotFound (daoClassName d) action (key v))
      | SqlType \<Rightarrow>
          (case bindParams d ps action of Inl e \<Rightarrow> Inl e | Inr bound \<Rightarrow> Inr ((k, v) # bound)))"

definition BaseDao_update :: "apply_like \<Rightarrow> dao \<Rightarrow> entity_parameters \<Rightarrow> error + query_type" where
  "BaseDao_update alv d data =
     (case defaultBeforeHook d data Update (OneColumn ''id'') of
        Inl e \<Rightarrow> Inl e
      | Inr cleanedParameters \<Rightarrow>
          (case updateByKeySql alv (daoTableName d) (ManyEntities cleanedParameters) ''id'' noOptions of
             Inl e \<Rightarrow> Inl e
           | Inr q \<Rightarrow> (case bindParams d (params q) Update of
                         Inl e \<Rightarrow> Inl e
                       | Inr bound \<Rightarrow> Inr q)))"

definition BaseDao_delete :: "apply_like \<Rightarrow> dao \<Rightarrow> entity_parameters \<Rightarrow> error + query_type" where
  "BaseDao_delete alv d data =
     (case defaultBeforeHook d data Delete (OneColumn ''id'') of
        Inl e \<Rightarrow> Inl e
      | Inr cleanedParameters \<Rightarrow>
          (case deleteByIdSql alv (daoTableName d) (ManyEntities cleanedParameters) noOptions of
             Inl e \<Rightarrow> Inl e
           | Inr q \<Rightarrow> (case bindParams d (params q) Delete of
                         Inl e \<Rightarrow> Inl e
                       | Inr bound \<Rightarrow> Inr q)))"

text \<open>An item has a column when the property is present with a value that is not nil.\<close>

definition hasColumnValue :: "string \<Rightarrow> entity_parameter \<Rightarrow> bool" where
  "hasColumnValue c item = list_ex (\<lambda>(k, v). k = c \<and> \<not> isNil v) item"

section \<open>Auxiliary definitions for the statements below\<close>

text \<open>The first occurrences of the elements of a list, in order.\<close>

definition firsts :: "'a list \<Rightarrow> 'a list" where
  "firsts xs = rev (remdups (rev xs))"

text \<open>The pairs that the callback of \<open>getColumnLists\<close> produces, item by item.\<close>

definition columnPairs :: "nat \<Rightarrow> entity_parameter list \<Rightarrow> (nat \<times> string) list" where
  "columnPairs n items = concat (map (\<lambda>(i, item). map (\<lambda>(k, v). (i, k)) item) (enumerate n items))"

text \<open>The INSERT statement of one column-shape group: its sorted columns and its item indices.\<close>

definition insertStatementOf :: "string \<Rightarrow> string list \<times> nat list \<Rightarrow> string" where
  "insertStatementOf tableName g =
     ''INSERT INTO ['' @ tableName @ ''] (['' @ join (fst g) ''],  ['' @ '']) VALUES ''
       @ join (map (\<lambda>i. ''('' @ join (map (\<lambda>c. ''@'' @ c @ ''_'' @ numToString i) (fst g)) '', '' @ '')'')
                (snd g)) '', '' @ '';''"

text \<open>
  The items that \<open>updateByKeySql\<close> compiles: the expansion of each item by its key values,
  after the \<open>id\<close> column has been omitted when the key is another column.
\<close>

definition preparedUpdateEntityParams :: "entity_parameters \<Rightarrow> string \<Rightarrow> entity_parameter list" where
  "preparedUpdateEntityParams entityParameters keyColumn =
     (if keyColumn \<noteq> ''id''
      then prepareUpdateEntityParamsByKey
             (ManyEntities (entityParametersFilter entityParameters (OneColumn ''id'') FilterOut))
             keyColumn
      else prepareUpdateEntityParamsByKey entityParameters ''id'')"

text \<open>The rows that one item contributes in \<open>prepareUpdateEntityParamsByKey\<close>.\<close>

definition expandKey :: "string \<Rightarrow> entity_parameter \<Rightarrow> entity_parameter list" where
  "expandKey keyColumn item =
     (if isNil (getProp item keyColumn) then []
      else map (\<lambda>k. setProperty item keyColumn k) (ensureArrayValue (getProp item keyColumn)))"

text \<open>The MERGE statement of one column-shape group.\<close>

definition updateStatementOf :: "string \<Rightarrow> string \<Rightarrow> string list \<times> nat list \<Rightarrow> string" where
  "updateStatementOf tableName keyStr g =
     ''MERGE INTO ['' @ tableName @ ''] AS target USING (VALUES'' @ newline @ ''    ''
       @ join (map (\<lambda>i. ''('' @ join (map (\<lambda>c. ''@'' @ c @ ''_'' @ numToString i) (fst g)) '', '' @ '')'')
                (snd g)) '', ''
       @ newline @ ''  ) AS source(['' @ join (fst g) ''],  ['' @ '']) '' @ newline
       @ ''   ON target.'' @ keyStr @ '' = source.'' @ keyStr @ newline
       @ ''   WHEN MATCHED THEN'' @ newline
       @ ''  UPDATE SET ''
       @ join (map (\<lambda>col. col @ '' = source.'' @ col) (filter (\<lambda>c. c \<noteq> keyStr) (fst g))) '', ''
       @ '';''"

text \<open>The number that a string of decimal digits denotes.\<close>

definition digitsValue :: "string \<Rightarrow> nat" where
  "digitsValue s = foldl (\<lambda>a c. 10 * a + (of_char c - 48)) 0 s"


text \<open>
  The (chunk index, element index) pairs of a list of chunks, and the pairs that
  \<open>toGroupParametersKeyValue\<close> binds for them under a group key.
\<close>

definition indexPairs :: "nat \<Rightarrow> 'a list list \<Rightarrow> (nat \<times> nat) list" where
  "indexPairs k chunks =
     concat (map (\<lambda>(cidx, arr). map (\<lambda>i. (cidx, i)) [0..<length arr]) (enumerate k chunks))"

definition chunkPairs :: "string \<Rightarrow> string \<Rightarrow> nat \<Rightarrow> jsval list list \<Rightarrow> (string \<times> value_key) list" where
  "chunkPairs groupKey keyStr k chunks =
     concat (map (\<lambda>(cidx, arr).
       map (\<lambda>(i, v). (groupKey @ ''_'' @ numToString cidx @ ''_'' @ numToString i,
                       \<lparr>value = v, key = keyStr\<rparr>)) (enumerate 0 arr))
       (enumerate k chunks))"


section \<open>Meaning of the emitted predicates\<close>

text \<open>
  The SQL text of the fragments that the properties below interpret (chunked IN and NOT IN
  lists, and the BETWEEN with its two IIF operands) is read as a term of a small predicate
  language; \<open>renderPred\<close> gives back the text. A predicate is evaluated on a row (column
  name to value) and a parameter binding in SQL's three-valued logic: \<open>None\<close> is NULL for a
  value and UNKNOWN for a truth value, a comparison with NULL is UNKNOWN, \<open>IIF\<close> takes its
  second branch unless the condition is TRUE, \<open>x BETWEEN lo AND hi\<close> is \<open>x >= lo AND x <= hi\<close>,
  \<open>x IN (...)\<close> is the disjunction of the equalities, and a row satisfies a predicate when
  it evaluates to TRUE. The values of a column are of any linearly ordered type.
\<close>

datatype sql_term =
    Column string
  | Parameter string
  | IifLess sql_term sql_term sql_term sql_term
  | IifGreater sql_term sql_term sql_term sql_term

datatype sql_pred =
    Between sql_term sql_term sql_term
  | InList sql_term "sql_term list"
  | NotInList sql_term "sql_term list"
  | AnyOf "sql_pred list"
  | AllOf "sql_pred list"

fun renderTerm :: "sql_term \<Rightarrow> string" where
  "renderTerm (Column c) = ''['' @ c @ '']''"
| "renderTerm (Parameter p) = ''@'' @ p"
| "renderTerm (IifLess a b c d) =
     ''IIF('' @ renderTerm a @ '' < '' @ renderTerm b @ '', '' @ renderTerm c @ '', '' @ renderTerm d @ '')''"
| "renderTerm (IifGreater a b c d) =
     ''IIF('' @ renderTerm a @ '' > '' @ renderTerm b @ '', '' @ renderTerm c @ '', '' @ renderTerm d @ '')''"

fun renderPred :: "sql_pred \<Rightarrow> string" where
  "renderPred (Between x lo hi) = renderTerm x @ '' BETWEEN '' @ renderTerm lo @ '' AND '' @ renderTerm hi"
| "renderPred (InList x ts) = renderTerm x @ '' IN ('' @ join (map renderTerm ts) '', '' @ '')''"
| "renderPred (NotInList x ts) = renderTerm x @ '' NOT IN ('' @ join (map renderTerm ts) '', '' @ '')''"
| "renderPred (AnyOf ps) = ''('' @ join (map renderPred ps) '' OR '' @ '')''"
| "renderPred (AllOf ps) = ''('' @ join (map renderPred ps) '' AND '' @ '')''"

fun and3 :: "bool option \<Rightarrow> bool option \<Rightarrow> bool option" where
  "and3 (Some False) q = Some False"
| "and3 p (Some False) = Some False"
| "and3 (Some True) (Some True) = Some True"
| "and3 p q = None"

fun or3 :: "bool option \<Rightarrow> bool option \<Rightarrow> bool option" where
  "or3 (Some True) q = Some True"
| "or3 p (Some True) = Some True"
| "or3 (Some False) (Some False) = Some False"
| "or3 p q = None"

fun not3 :: "bool option \<Rightarrow> bool option" where
  "not3 None = None"
| "not3 (Some b) = Some (\<not> b)"

fun compare3 :: "('v \<Rightarrow> 'v \<Rightarrow> bool) \<Rightarrow> 'v option \<Rightarrow> 'v option \<Rightarrow> bool option" where
  "compare3 r (Some x) (Some y) = Some (r x y)"
| "compare3 r x y = None"

fun evalTerm :: "(string \<Rightarrow> 'v::linorder option) \<Rightarrow> (string \<Rightarrow> 'v option) \<Rightarrow> sql_term \<Rightarrow> 'v option" where
  "evalTerm row ps (Column c) = row c"
| "evalTerm row ps (Parameter p) = ps p"
| "evalTerm row ps (IifLess a b c d) =
     (if compare3 (<) (evalTerm row ps a) (evalTerm row ps b) = Some True
      then evalTerm row ps c else evalTerm row ps d)"
| "evalTerm row ps (IifGreater a b c d) =
     (if compare3 (>) (evalTerm row ps a) (evalTerm row ps b) = Some True
      then evalTerm row ps c else evalTerm row ps d)"

fun evalPred :: "(string \<Rightarrow> 'v::linorder option) \<Rightarrow> (string \<Rightarrow> 'v option) \<Rightarrow> sql_pred \<Rightarrow> bool option" where
  "evalPred row ps (Between x lo hi) =
     and3 (compare3 (\<ge>) (evalTerm row ps x) (evalTerm row ps lo))
          (compare3 (\<le>) (evalTerm row ps x) (evalTerm row ps hi))"
| "evalPred row ps (InList x ts) =
     foldr or3 (map (\<lambda>t. compare3 (=) (evalTerm row ps x) (evalTerm row ps t)) ts) (Some False)"
| "evalPred row ps (NotInList x ts) =
     not3 (foldr or3 (map (\<lambda>t. compare3 (=) (evalTerm row ps x) (evalTerm row ps t)) ts) (Some False))"
| "evalPred row ps (AnyOf qs) = foldr or3 (map (evalPred row ps) qs) (Some False)"
| "evalPred row ps (AllOf qs) = foldr and3 (map (evalPred row ps) qs) (Some True)"

definition satisfied :: "(string \<Rightarrow> 'v::linorder option) \<Rightarrow> (string \<Rightarrow> 'v option) \<Rightarrow> sql_pred \<Rightarrow> bool" where
  "satisfied row ps q = (evalPred row ps q = Some True)"

text \<open>
  The binding that a list of bound parameters gives to the parameter names: \<open>sqlValue\<close>
  is the conversion of a bound JavaScript value to a value of the column's SQL type.
\<close>

definition parameterValues :: "(jsval \<Rightarrow> 'v option) \<Rightarrow> (string \<times> value_key) list \<Rightarrow> string \<Rightarrow> 'v option" where
  "parameterValues sqlValue ps name =
     (case map_of ps name of None \<Rightarrow> None | Some vk \<Rightarrow> sqlValue (value vk))"

text \<open>The predicate of a BETWEEN fragment on a column of the item with the given index.\<close>

definition betweenPred :: "string \<Rightarrow> nat \<Rightarrow> sql_pred" where
  "betweenPred keyStr itemIndex =
     (let p0 = Parameter (keyStr @ ''_'' @ numToString itemIndex @ ''_0'');
          p1 = Parameter (keyStr @ ''_'' @ numToString itemIndex @ ''_1'')
      in Between (Column keyStr) (IifLess p0 p1 p0 p1) (IifGreater p0 p1 p0 p1))"

text \<open>Numbers as SQL integers.\<close>

definition numberValue :: "jsval \<Rightarrow> int option" where
  "numberValue v = (case v of Num n \<Rightarrow> Some n | _ \<Rightarrow> None)"

text \<open>
  The predicate of a chunked list: one IN or NOT IN clause per chunk, and their
  disjunction or conjunction; \<open>chunkClauseSql\<close> is the text of one clause.
\<close>

definition chunkClause :: "operator \<Rightarrow> string \<Rightarrow> string \<Rightarrow> nat \<times> jsval list \<Rightarrow> sql_pred" where
  "chunkClause opr keyStr groupKey c =
     (if opr = OpNe \<or> opr = OpNotIn then NotInList else InList) (Column keyStr)
       (map (\<lambda>i. Parameter (groupKey @ ''_'' @ numToString (fst c) @ ''_'' @ numToString i))
          [0..<length (snd c)])"

definition listPred :: "operator \<Rightarrow> string \<Rightarrow> nat \<Rightarrow> jsval list list \<Rightarrow> sql_pred" where
  "listPred opr keyStr itemIndex chunks =
     (if opr = OpNotIn then AllOf else AnyOf)
       (map (chunkClause opr keyStr (keyStr @ ''_'' @ numToString itemIndex)) (enumerate 0 chunks))"

definition chunkClauseSql :: "operator \<Rightarrow> string \<Rightarrow> string \<Rightarrow> nat \<times> jsval list \<Rightarrow> string" where
  "chunkClauseSql opr keyStr groupKey c =
     (let placeholders = join (map (\<lambda>i. ''@'' @ groupKey @ ''_'' @ numToString (fst c) @ ''_'' @ numToString i)
                                 [0..<length (snd c)]) '', ''
      in if opr = OpNe \<or> opr = OpNotIn
         then ''['' @ keyStr @ ''] NOT IN ('' @ placeholders @ '')''
         else ''['' @ keyStr @ ''] IN ('' @ placeholders @ '')'')"

section \<open>Properties of the traversal\<close>

lemma mapItemFields_append:
  "mapItemFields cb i (xs @ ys) =
     (case mapItemFields cb i xs of
        Inl e \<Rightarrow> Inl e
      | Inr rs \<Rightarrow> (case mapItemFields cb i ys of Inl e \<Rightarrow> Inl e | Inr rs' \<Rightarrow> Inr (rs @ rs')))"
  by (induction xs) (auto split: sum.splits)

lemma mapItemsFrom_append:
  "mapItemsFrom cb n (xs @ ys) =
     (case mapItemsFrom cb n xs of
        Inl e \<Rightarrow> Inl e
      | Inr rs \<Rightarrow> (case mapItemsFrom cb (n + length xs) ys of
                     Inl e \<Rightarrow> Inl e
                   | Inr rs' \<Rightarrow> Inr (rs @ rs')))"
  by (induction xs arbitrary: n) (auto split: sum.splits)

text \<open>An error of the traversal is the error of one of its callback invocations.\<close>

lemma mapItemFields_error:
  "mapItemFields cb i item = Inl e \<Longrightarrow>
     \<exists>(k, v) \<in> set item. cb (fst (unwrapFieldQuery v)) k (snd (unwrapFieldQuery v)) i = Inl e"
  by (induction item) (auto split: sum.splits)

lemma mapItemsFrom_error:
  "mapItemsFrom cb n items = Inl e \<Longrightarrow>
     \<exists>item \<in> set items. \<exists>(k, v) \<in> set (forEachEntries item). \<exists>i.
        cb (fst (unwrapFieldQuery v)) k (snd (unwrapFieldQuery v)) i = Inl e"
proof (induction items arbitrary: n)
  case Nil
  then show ?case by simp
next
  case (Cons item items)
  show ?case
  proof (cases "mapItemFields cb n (forEachEntries item)")
    case (Inl e')
    with Cons.prems have "e' = e" by simp
    with Inl mapItemFields_error[of cb n "forEachEntries item" e] show ?thesis by auto
  next
    case (Inr rs)
    with Cons.prems have "mapItemsFrom cb (Suc n) items = Inl e"
      by (auto split: sum.splits)
    from Cons.IH[OF this] show ?thesis by auto
  qed
qed

text \<open>A callback that throws on one field makes the whole traversal throw.\<close>

lemma mapItemFields_fails:
  "cb (fst (unwrapFieldQuery v)) k (snd (unwrapFieldQuery v)) i = Inl e0 \<Longrightarrow>
     \<exists>e. mapItemFields cb i (fs1 @ (k, v) # fs2) = Inl e"
  by (auto simp: mapItemFields_append split: sum.splits)

lemma mapItemsFrom_fails:
  "mapItemFields cb (n + length pre) (forEachEntries item) = Inl e0 \<Longrightarrow>
     \<exists>e. mapItemsFrom cb n (pre @ item # post) = Inl e"
  by (auto simp: mapItemsFrom_append split: sum.splits)

lemma sqlFragment_error:
  assumes err: "sqlFragment t a opts v k opr i = Inl e"
  shows "e = invalidBetween t a
     \<or> (\<not> whitelisted opts k \<and> onUnknownColumn opts = Some Throw \<and> e = unknownColumn t a k)"
proof (cases "whitelisted opts k")
  case True
  then have "\<not> (case columnsList opts of None \<Rightarrow> False | Some cols \<Rightarrow> k \<notin> set cols)"
    by (simp add: whitelisted_def split: option.splits)
  with err show ?thesis
    by (auto simp: sqlFragment_def Let_def split: jsval.splits if_splits)
next
  case False
  then have "(case columnsList opts of None \<Rightarrow> False | Some cols \<Rightarrow> k \<notin> set cols)"
    by (simp add: whitelisted_def split: option.splits)
  then have frag: "sqlFragment t a opts v k opr i =
      (if (case onUnknownColumn opts of None \<Rightarrow> DEFAULT_UNKNOWN_COLUMN | Some m \<Rightarrow> m) = Ignore
       then Inr (Single (i, ''1=1'')) else Inl (unknownColumn t a k))"
    by (simp add: sqlFragment_def Let_def)
  show ?thesis
  proof (cases "onUnknownColumn opts")
    case None
    with err frag show ?thesis
      by (simp add: DEFAULT_UNKNOWN_COLUMN_def)
  next
    case (Some m)
    with err frag False show ?thesis
      by (cases m) (auto split: if_splits)
  qed
qed


lemma arrayLikeLength_no_length:
  "''length'' \<notin> fst ` set item \<Longrightarrow> arrayLikeLength item = None"
proof -
  assume "''length'' \<notin> fst ` set item"
  then have "map_of item ''length'' = None" by (simp add: map_of_eq_None_iff)
  then show ?thesis by (simp add: arrayLikeLength_def)
qed

lemma keyValues_error:
  "keyValues alv t a opts v k opr i = Inl e \<Longrightarrow> e = invalidBetween t a"
  by (auto simp: keyValues_def Let_def split: jsval.splits if_splits)

lemma sqlFragment_between:
  "whitelisted opts k \<Longrightarrow> vs \<noteq> [] \<Longrightarrow> length vs \<noteq> 2 \<Longrightarrow>
     sqlFragment t a opts (Arr vs) k OpBetween i = Inl (invalidBetween t a)"
  by (auto simp: sqlFragment_def whitelisted_def Let_def split: option.splits)

lemma keyValues_between:
  "vs \<noteq> [] \<Longrightarrow> length vs \<noteq> 2 \<Longrightarrow>
     keyValues alv t a opts (Arr vs) k OpBetween i = Inl (invalidBetween t a)"
  by (auto simp: keyValues_def Let_def)

section \<open>Auxiliary facts\<close>

lemma enumerate_nth: "enumerate 0 xs = map (\<lambda>i. (i, xs ! i)) [0..<length xs]"
  by (rule nth_equalityI) (auto simp: nth_enumerate_eq)

lemma and3_Some: "and3 (Some p) (Some q) = Some (p \<and> q)"
  by (cases p; cases q) simp_all

lemma or3_Some: "or3 (Some p) (Some q) = Some (p \<or> q)"
  by (cases p; cases q) simp_all

lemma numToString_1: "numToString (Suc 0) = ''1''"
  by code_simp


section \<open>Chunked IN lists under the operator \<open>!=\<close>\<close>

text \<open>
  C1. An array value under \<open>!=\<close> gets a \<open>NOT IN\<close> clause per chunk, as under \<open>NOT IN\<close>, but
  the glue between the chunks is chosen by \<open>operator === 'NOT IN'\<close> alone: with the array
  \<open>[1, 2]\<close> and chunk size 1 the two \<open>NOT IN\<close> clauses are joined by \<open>OR\<close>, not by \<open>AND\<close>.
  The same array under \<open>NOT IN\<close> is joined by \<open>AND\<close>. Under the bound parameters 1 and 2, a
  row whose column is 1 satisfies the predicate compiled for \<open>!=\<close>, although 1 is a member
  of the array.
\<close>

theorem ne_array_chunks_joined_by_or:
  "toGroupParametersSql ''t'' Find
      (OneEntity [(''a'', FieldQuery (Some OpNe) (Arr [Num 1, Num 2]))])
      (noOptions\<lparr>inChunkSize := Some 1\<rparr>)
     = Inr [(0, [''([a] NOT IN (@a_0_0_0) OR [a] NOT IN (@a_0_1_0))''])]
   \<and> toGroupParametersSql ''t'' Find
      (OneEntity [(''a'', FieldQuery (Some OpNotIn) (Arr [Num 1, Num 2]))])
      (noOptions\<lparr>inChunkSize := Some 1\<rparr>)
     = Inr [(0, [''([a] NOT IN (@a_0_0_0) AND [a] NOT IN (@a_0_1_0))''])]
   \<and> getParams alv ''t'' Find
      (OneEntity [(''a'', FieldQuery (Some OpNe) (Arr [Num 1, Num 2]))])
      (noOptions\<lparr>inChunkSize := Some 1\<rparr>)
     = Inr [(''a_0_0_0'', \<lparr>value = Num 1, key = ''a''\<rparr>),
            (''a_0_1_0'', \<lparr>value = Num 2, key = ''a''\<rparr>)]
   \<and> renderPred (AnyOf [NotInList (Column ''a'') [Parameter ''a_0_0_0''],
                        NotInList (Column ''a'') [Parameter ''a_0_1_0'']])
     = ''([a] NOT IN (@a_0_0_0) OR [a] NOT IN (@a_0_1_0))''
   \<and> satisfied (\<lambda>c. Some 1)
       (parameterValues numberValue
          [(''a_0_0_0'', \<lparr>value = Num 1, key = ''a''\<rparr>),
           (''a_0_1_0'', \<lparr>value = Num 2, key = ''a''\<rparr>)])
       (AnyOf [NotInList (Column ''a'') [Parameter ''a_0_0_0''],
               NotInList (Column ''a'') [Parameter ''a_0_1_0'']])"
  by code_simp

section \<open>Parameter names\<close>

text \<open>
  C3. Parameter names are not pairwise distinct: in one item, the two operands of a
  BETWEEN on column \<open>a\<close> are named \<open>a_0_0\<close> and \<open>a_0_1\<close>, and the scalar column \<open>a_0\<close> is
  named \<open>a_0_0\<close> as well. \<open>getParams\<close> then keeps one binding for \<open>a_0_0\<close>, the later one.
\<close>

theorem parameter_names_collide:
  "toGroupParametersKeyValue alv ''t'' Find
      (OneEntity [(''a'', FieldQuery (Some OpBetween) (Arr [Num 1, Num 2])), (''a_0'', Num 5)])
      noOptions
     = Inr [(''a_0_0'', \<lparr>value = Num 1, key = ''a''\<rparr>),
            (''a_0_1'', \<lparr>value = Num 2, key = ''a''\<rparr>),
            (''a_0_0'', \<lparr>value = Num 5, key = ''a_0''\<rparr>)]
   \<and> getParams alv ''t'' Find
      (OneEntity [(''a'', FieldQuery (Some OpBetween) (Arr [Num 1, Num 2])), (''a_0'', Num 5)])
      noOptions
     = Inr [(''a_0_0'', \<lparr>value = Num 5, key = ''a_0''\<rparr>),
            (''a_0_1'', \<lparr>value = Num 2, key = ''a''\<rparr>)]"
  by code_simp

section \<open>BETWEEN with a wrong number of operands\<close>

text \<open>
  C5, as stated, fails at three inputs. At the empty array the emptiness test comes before
  the BETWEEN test, so a BETWEEN on \<open>[]\<close> compiles to the fragment \<open>1=0\<close> with no parameter
  and no error. In an item with \<open>length: 0\<close>, which lodash takes for array-like, no field is
  visited, so a BETWEEN on three operands raises nothing in either function. On a column
  that is not in \<open>columnsList\<close>, with unknown columns ignored (the default),
  \<open>toGroupParametersSql\<close> returns \<open>1=1\<close> for the field before it looks at the value.
\<close>

theorem between_empty_array_compiles:
  "toGroupParametersSql ''users'' Find
      (OneEntity [(''age'', FieldQuery (Some OpBetween) (Arr []))]) noOptions
     = Inr [(0, [''1=0''])]
   \<and> toGroupParametersKeyValue (\<lambda>v m e. v) ''users'' Find
      (OneEntity [(''age'', FieldQuery (Some OpBetween) (Arr []))]) noOptions
     = Inr []
   \<and> toGroupParametersSql ''users'' Find
      (OneEntity [(''length'', Num 0),
                  (''age'', FieldQuery (Some OpBetween) (Arr [Num 1, Num 2, Num 3]))]) noOptions
     = Inr []
   \<and> toGroupParametersKeyValue (\<lambda>v m e. v) ''users'' Find
      (OneEntity [(''length'', Num 0),
                  (''age'', FieldQuery (Some OpBetween) (Arr [Num 1, Num 2, Num 3]))]) noOptions
     = Inr []
   \<and> toGroupParametersSql ''users'' Find
      (OneEntity [(''age'', FieldQuery (Some OpBetween) (Arr [Num 1, Num 2, Num 3]))])
      (noOptions\<lparr>columnsList := Some [''name'']\<rparr>)
     = Inr [(0, [''1=1''])]"
  by code_simp

text \<open>
  C5, amended. Let the traversal of some item visit a field that carries a BETWEEN whose
  array is not empty and has a length other than 2. Then \<open>toGroupParametersKeyValue\<close> fails
  with the invalid-BETWEEN error of the table and action. If the column passes the
  whitelist check, the callback of \<open>toGroupParametersSql\<close> raises that error for the field
  and \<open>toGroupParametersSql\<close> fails: with that error, unless unknown columns are to be
  thrown and the traversal meets one first, whose error it then is. If the column does not
  pass the whitelist check, the value is not looked at: the callback returns \<open>1=1\<close>, or
  raises the unknown-column error when unknown columns are to be thrown.
\<close>

theorem between_wrong_length_fails:
  assumes items: "ensureArray entityParameters = pre @ item # post"
    and entries: "forEachEntries item = fs1 @ (k, fv) # fs2"
    and fq: "unwrapFieldQuery fv = (Arr vs, OpBetween)"
    and len: "vs \<noteq> []" "length vs \<noteq> 2"
  shows "keyValues alv tableName action opts' (Arr vs) k OpBetween (length pre)
           = Inl (invalidBetween tableName action)
       \<and> toGroupParametersKeyValue alv tableName action entityParameters opts'
           = Inl (invalidBetween tableName action)
       \<and> (whitelisted opts k \<longrightarrow>
            sqlFragment tableName action opts (Arr vs) k OpBetween (length pre)
              = Inl (invalidBetween tableName action)
          \<and> (\<exists>e. toGroupParametersSql tableName action entityParameters opts = Inl e
                 \<and> (e = invalidBetween tableName action
                      \<or> onUnknownColumn opts = Some Throw
                          \<and> (\<exists>c. \<not> whitelisted opts c \<and> e = unknownColumn tableName action c)))
          \<and> (onUnknownColumn opts \<noteq> Some Throw \<longrightarrow>
                toGroupParametersSql tableName action entityParameters opts
                  = Inl (invalidBetween tableName action)))
       \<and> (\<not> whitelisted opts k \<longrightarrow>
            sqlFragment tableName action opts (Arr vs) k OpBetween (length pre)
              = (if onUnknownColumn opts = Some Throw
                 then Inl (unknownColumn tableName action k)
                 else Inr (Single (length pre, ''1=1''))))"
proof -
  let ?i = "0 + length pre"
  have kv0: "keyValues alv tableName action opts' (Arr vs) k OpBetween (length pre)
           = Inl (invalidBetween tableName action)"
    by (rule keyValues_between[OF len])
  have "keyValues alv tableName action opts' (fst (unwrapFieldQuery fv)) k
          (snd (unwrapFieldQuery fv)) ?i = Inl (invalidBetween tableName action)"
    using kv0 fq by simp
  from mapItemFields_fails[where cb = "keyValues alv tableName action opts'" and v = fv and k = k, OF this]
  obtain e2 where "mapItemFields (keyValues alv tableName action opts') ?i (forEachEntries item) = Inl e2"
    unfolding entries by blast
  from mapItemsFrom_fails[OF this] obtain e' where
    e': "mapItemsFrom (keyValues alv tableName action opts') 0 (pre @ item # post) = Inl e'"
    by blast
  from mapItemsFrom_error[OF e'] keyValues_error have "e' = invalidBetween tableName action"
    by blast
  with e' have kv: "toGroupParametersKeyValue alv tableName action entityParameters opts'
      = Inl (invalidBetween tableName action)"
    by (simp add: toGroupParametersKeyValue_def mapEntityItems_def items)
  have wl: "sqlFragment tableName action opts (Arr vs) k OpBetween (length pre)
              = Inl (invalidBetween tableName action)
          \<and> (\<exists>e. toGroupParametersSql tableName action entityParameters opts = Inl e
                 \<and> (e = invalidBetween tableName action
                      \<or> onUnknownColumn opts = Some Throw
                          \<and> (\<exists>c. \<not> whitelisted opts c \<and> e = unknownColumn tableName action c)))
          \<and> (onUnknownColumn opts \<noteq> Some Throw \<longrightarrow>
                toGroupParametersSql tableName action entityParameters opts
                  = Inl (invalidBetween tableName action))"
    if k: "whitelisted opts k"
  proof -
    have f0: "sqlFragment tableName action opts (Arr vs) k OpBetween (length pre)
              = Inl (invalidBetween tableName action)"
      by (rule sqlFragment_between[OF k len])
    then have "sqlFragment tableName action opts (fst (unwrapFieldQuery fv)) k
            (snd (unwrapFieldQuery fv)) ?i = Inl (invalidBetween tableName action)"
      using fq by simp
    from mapItemFields_fails[where cb = "sqlFragment tableName action opts" and v = fv and k = k, OF this]
    obtain e1 where "mapItemFields (sqlFragment tableName action opts) ?i (forEachEntries item) = Inl e1"
      unfolding entries by blast
    from mapItemsFrom_fails[OF this] obtain e where
      e: "mapItemsFrom (sqlFragment tableName action opts) 0 (pre @ item # post) = Inl e"
      by blast
    from mapItemsFrom_error[OF e] obtain c v i where
      "sqlFragment tableName action opts (fst (unwrapFieldQuery v)) c
         (snd (unwrapFieldQuery v)) i = Inl e"
      by blast
    from sqlFragment_error[OF this]
    have id: "e = invalidBetween tableName action
        \<or> onUnknownColumn opts = Some Throw
            \<and> (\<exists>c. \<not> whitelisted opts c \<and> e = unknownColumn tableName action c)"
      by blast
    from e have sql: "toGroupParametersSql tableName action entityParameters opts = Inl e"
      by (simp add: toGroupParametersSql_def mapEntityItems_def items)
    from f0 sql id show ?thesis by auto
  qed
  have nwl: "sqlFragment tableName action opts (Arr vs) k OpBetween (length pre)
              = (if onUnknownColumn opts = Some Throw
                 then Inl (unknownColumn tableName action k)
                 else Inr (Single (length pre, ''1=1'')))"
    if k: "\<not> whitelisted opts k"
  proof -
    from k have "(case columnsList opts of None \<Rightarrow> False | Some cols \<Rightarrow> k \<notin> set cols)"
      by (simp add: whitelisted_def split: option.splits)
    then have "sqlFragment tableName action opts (Arr vs) k OpBetween (length pre) =
        (if (case onUnknownColumn opts of None \<Rightarrow> DEFAULT_UNKNOWN_COLUMN | Some m \<Rightarrow> m) = Ignore
         then Inr (Single (length pre, ''1=1'')) else Inl (unknownColumn tableName action k))"
      by (simp add: sqlFragment_def Let_def)
    then show ?thesis
    proof (cases "onUnknownColumn opts")
      case None
      with \<open>sqlFragment tableName action opts (Arr vs) k OpBetween (length pre) = _\<close> show ?thesis
        by (simp add: DEFAULT_UNKNOWN_COLUMN_def)
    next
      case (Some m)
      with \<open>sqlFragment tableName action opts (Arr vs) k OpBetween (length pre) = _\<close> show ?thesis
        by (cases m) simp_all
    qed
  qed
  from kv0 kv wl nwl show ?thesis by blast
qed

text \<open>The amended C5 at a BETWEEN with three operands.\<close>

theorem between_wrong_length_fails_witness:
  "toGroupParametersSql ''users'' Find
      (OneEntity [(''age'', FieldQuery (Some OpBetween) (Arr [Num 18, Num 30, Num 40]))]) noOptions
     = Inl (SqlError ''users'' ''Invalid between values for find'')
   \<and> toGroupParametersKeyValue (\<lambda>v m e. v) ''users'' Find
      (OneEntity [(''age'', FieldQuery (Some OpBetween) (Arr [Num 18, Num 30, Num 40]))]) noOptions
     = Inl (SqlError ''users'' ''Invalid between values for find'')"
proof -
  have e: "forEachEntries [(''age'', FieldQuery (Some OpBetween) (Arr [Num 18, Num 30, Num 40]))]
      = [] @ (''age'', FieldQuery (Some OpBetween) (Arr [Num 18, Num 30, Num 40])) # []"
    by code_simp
  from between_wrong_length_fails[of
      "OneEntity [(''age'', FieldQuery (Some OpBetween) (Arr [Num 18, Num 30, Num 40]))]"
      "[]" "[(''age'', FieldQuery (Some OpBetween) (Arr [Num 18, Num 30, Num 40]))]" "[]"
      "[]" "''age''" "FieldQuery (Some OpBetween) (Arr [Num 18, Num 30, Num 40])" "[]"
      "[Num 18, Num 30, Num 40]" "\<lambda>v m e. v" "''users''" Find noOptions noOptions, OF _ e]
  show ?thesis
    by (simp add: whitelisted_def noOptions_def invalidBetween_def sqlActionError_def)
qed

section \<open>Default ordering and paging\<close>

text \<open>
  C6. With \<open>skip = 0\<close> and no \<open>take\<close>, \<open>buildOrderBySql\<close> tests the truthiness of \<open>skip\<close>
  and returns no ORDER BY, while the paging clause, which tests \<open>skip\<close> for nil, is
  emitted: the generated SELECT has \<open>OFFSET 0 ROWS FETCH NEXT 100 ROWS ONLY\<close> and no
  ORDER BY clause.
\<close>

theorem paging_without_order_by:
  "buildOrderBySql ''users'' [''id'', ''created_at''] (noOptions\<lparr>skip_opt := Some 0\<rparr>) = Inr []
   \<and> pagingSql (noOptions\<lparr>skip_opt := Some 0\<rparr>) = ''OFFSET 0 ROWS FETCH NEXT 100 ROWS ONLY''
   \<and> selectByColumnsSql alv ''users'' [''id'', ''created_at''] NoEntity (noOptions\<lparr>skip_opt := Some 0\<rparr>)
     = Inr \<lparr>sql = newline @ ''    SELECT * FROM [users]'' @ newline @ ''    '' @ newline
                   @ ''    OFFSET 0 ROWS FETCH NEXT 100 ROWS ONLY;'' @ newline @ ''  '',
            params = []\<rparr>"
  by code_simp

text \<open>C6 at the identity for \<open>applyLikeValue\<close>: the SELECT that is compiled for \<open>skip = 0\<close>.\<close>

theorem paging_without_order_by_witness:
  "selectByColumnsSql (\<lambda>v m e. v) ''users'' [''id'', ''created_at''] NoEntity
      (noOptions\<lparr>skip_opt := Some 0\<rparr>)
     = Inr \<lparr>sql = newline @ ''    SELECT * FROM [users]'' @ newline @ ''    '' @ newline
                   @ ''    OFFSET 0 ROWS FETCH NEXT 100 ROWS ONLY;'' @ newline @ ''  '',
            params = []\<rparr>"
  using paging_without_order_by[of "\<lambda>v m e. v"] by simp

section \<open>The default before-hook\<close>

lemma hasColumnValue_pickBy:
  "(c \<in> set (map fst (pickBy (\<lambda>v. \<not> isNil v) item))) = hasColumnValue c item"
  by (induction item) (auto simp: pickBy_def hasColumnValue_def)

lemma hasColumnValue_nonempty:
  "hasColumnValue c item \<Longrightarrow> pickBy (\<lambda>v. \<not> isNil v) item \<noteq> []"
  by (induction item) (auto simp: pickBy_def hasColumnValue_def)

lemma cleanParameters_id:
  "cleanParameters data (OneColumn ''id'')
     = map (pickBy (\<lambda>v. \<not> isNil v)) (filter (hasColumnValue ''id'') (ensureArray data))"
proof -
  have "filter (\<lambda>item. ''id'' \<in> set (map fst item))
          (filter (\<lambda>item. item \<noteq> []) (map (pickBy (\<lambda>v. \<not> isNil v)) xs))
      = map (pickBy (\<lambda>v. \<not> isNil v)) (filter (hasColumnValue ''id'') xs)" for xs
    by (induction xs) (auto simp: hasColumnValue_pickBy dest: hasColumnValue_nonempty simp del: set_map)
  then show ?thesis
    by (simp add: cleanParameters_def Let_def del: set_map)
qed

lemma filter_hasColumnValue_empty:
  "(filter (hasColumnValue c) xs = []) = (\<not> list_ex (hasColumnValue c) xs)"
  by (induction xs) auto

lemma validateField_not_noId:
  "validateField d items \<noteq> Inl (noId cls action)"
  by (auto simp: validateField_def Let_def validateFieldError_def noId_def daoActionError_def newline_def)

lemma validated_all:
  "concat (map (\<lambda>(index, item, failed). map (\<lambda>m. (index, m)) failed)
       (map (\<lambda>(index, item). (index, item, F index item)) (enumerate n items))) = [] \<Longrightarrow>
   map (\<lambda>(index, item, failed). item)
     (filter (\<lambda>(index, item, failed). length failed = 0)
       (map (\<lambda>(index, item). (index, item, F index item)) (enumerate n items))) = items"
  by (induction items arbitrary: n) auto

lemma validateField_Inr:
  assumes "validateField d items = Inr xs"
  shows "xs = items"
proof -
  let ?F = "\<lambda>index item. concat (map (\<lambda>r. case r of None \<Rightarrow> [] | Some m \<Rightarrow> [m])
              (daoSafeParse d (omitBy isArray item) #
               concat (map (\<lambda>(k, field). map (\<lambda>v. daoSafeParse d [(k, v)]) (ensureArrayValue field))
                         (pickBy isArray item))))"
  let ?per = "map (\<lambda>(index, item). (index, item, ?F index item)) (enumerate 0 items)"
  have per: "validateField d items =
      (if length (concat (map (\<lambda>(index, item, failed). map (\<lambda>m. (index, m)) failed) ?per)) > 0
       then Inl (validateFieldError (daoClassName d)
              (concat (map (\<lambda>(index, item, failed). map (\<lambda>m. (index, m)) failed) ?per)))
       else Inr (map (\<lambda>(index, item, failed). item)
              (filter (\<lambda>(index, item, failed). length failed = 0) ?per)))"
    by (simp add: validateField_def Let_def)
  from assms per have e: "concat (map (\<lambda>(index, item, failed). map (\<lambda>m. (index, m)) failed) ?per) = []"
    by (auto split: if_splits)
  from assms per e have "xs = map (\<lambda>(index, item, failed). item)
              (filter (\<lambda>(index, item, failed). length failed = 0) ?per)"
    by (auto split: if_splits)
  with validated_all[of ?F 0 items, OF e] show ?thesis by simp
qed

text \<open>
  C4, as stated, at an update of two items of which the second has no \<open>id\<close>: the hook
  raises nothing, it drops the item without \<open>id\<close> and returns the other one, and \<open>update\<close>
  goes on to compile and bind a MERGE statement for it.
\<close>

theorem item_without_id_is_dropped:
  "defaultBeforeHook
      \<lparr>daoClassName = ''UsersDao'', daoTableName = ''users'', daoSafeParse = (\<lambda>item. None),
       daoColumn = (\<lambda>c. SqlType)\<rparr>
      (ManyEntities [[(''id'', Num 1), (''name'', Str ''a'')], [(''name'', Str ''b'')]])
      Update (OneColumn ''id'')
     = Inr [[(''id'', Num 1), (''name'', Str ''a'')]]
   \<and> BaseDao_update (\<lambda>v m e. v)
      \<lparr>daoClassName = ''UsersDao'', daoTableName = ''users'', daoSafeParse = (\<lambda>item. None),
       daoColumn = (\<lambda>c. SqlType)\<rparr>
      (ManyEntities [[(''id'', Num 1), (''name'', Str ''a'')], [(''name'', Str ''b'')]])
     = Inr \<lparr>sql = ''MERGE INTO [users] AS target USING (VALUES'' @ newline
                   @ ''    (@id_0, @name_0)'' @ newline
                   @ ''  ) AS source([id],  [name]) '' @ newline
                   @ ''   ON target.id = source.id'' @ newline
                   @ ''   WHEN MATCHED THEN'' @ newline
                   @ ''  UPDATE SET name = source.name;'',
            params = [(''id_0'', \<lparr>value = Num 1, key = ''id''\<rparr>),
                      (''name_0'', \<lparr>value = Str ''a'', key = ''name''\<rparr>)]\<rparr>"
  by code_simp

text \<open>
  C4, amended. In an update or delete through the default before-hook, the items that
  have no non-nil \<open>id\<close> are dropped. The hook raises the \<open>Missing id\<close> error exactly when no
  supplied item has a non-nil \<open>id\<close>; when it returns, it returns the items that have one,
  without their nil fields. When it raises, \<open>update\<close> and \<open>delete\<close> end with that error
  and hand no statement to the request.
\<close>

theorem missing_id_iff_no_item_has_id:
  assumes "action = Update \<or> action = Delete"
  shows "((defaultBeforeHook d data action (OneColumn ''id'') = Inl (noId (daoClassName d) action))
           = (\<not> list_ex (hasColumnValue ''id'') (ensureArray data)))
       \<and> (\<forall>cleaned. defaultBeforeHook d data action (OneColumn ''id'') = Inr cleaned \<longrightarrow>
            cleaned = map (pickBy (\<lambda>v. \<not> isNil v))
                        (filter (hasColumnValue ''id'') (ensureArray data)))
       \<and> (\<not> list_ex (hasColumnValue ''id'') (ensureArray data) \<longrightarrow>
            BaseDao_update alv d data = Inl (noId (daoClassName d) Update)
          \<and> BaseDao_delete alv d data = Inl (noId (daoClassName d) Delete))"
proof -
  have nf: "action \<noteq> Find" using assms by auto
  have hook: "defaultBeforeHook d data a (OneColumn ''id'') =
      (if \<not> list_ex (hasColumnValue ''id'') (ensureArray data) \<and> a \<noteq> Find
       then Inl (noId (daoClassName d) a)
       else validateField d (map (pickBy (\<lambda>v. \<not> isNil v))
              (filter (hasColumnValue ''id'') (ensureArray data))))" for a
    by (simp add: defaultBeforeHook_def Let_def cleanParameters_id filter_hasColumnValue_empty)
  have 1: "(defaultBeforeHook d data action (OneColumn ''id'') = Inl (noId (daoClassName d) action))
           = (\<not> list_ex (hasColumnValue ''id'') (ensureArray data))"
    using nf by (simp add: hook validateField_not_noId)
  have 2: "\<forall>cleaned. defaultBeforeHook d data action (OneColumn ''id'') = Inr cleaned \<longrightarrow>
            cleaned = map (pickBy (\<lambda>v. \<not> isNil v))
                        (filter (hasColumnValue ''id'') (ensureArray data))"
    using nf by (auto simp: hook dest: validateField_Inr split: if_splits)
  have 3: "\<not> list_ex (hasColumnValue ''id'') (ensureArray data) \<longrightarrow>
            BaseDao_update alv d data = Inl (noId (daoClassName d) Update)
          \<and> BaseDao_delete alv d data = Inl (noId (daoClassName d) Delete)"
    by (simp add: BaseDao_update_def BaseDao_delete_def hook)
  from 1 2 3 show ?thesis by blast
qed

text \<open>The amended C4 at an update whose only item has no \<open>id\<close>.\<close>

theorem missing_id_iff_no_item_has_id_witness:
  "defaultBeforeHook
      \<lparr>daoClassName = ''UsersDao'', daoTableName = ''users'', daoSafeParse = (\<lambda>item. None),
       daoColumn = (\<lambda>c. SqlType)\<rparr>
      (ManyEntities [[(''name'', Str ''b'')]]) Update (OneColumn ''id'')
     = Inl (DaoError ''UsersDao'' ''Missing id for update'')
   \<and> BaseDao_update (\<lambda>v m e. v)
      \<lparr>daoClassName = ''UsersDao'', daoTableName = ''users'', daoSafeParse = (\<lambda>item. None),
       daoColumn = (\<lambda>c. SqlType)\<rparr>
      (ManyEntities [[(''name'', Str ''b'')]])
     = Inl (DaoError ''UsersDao'' ''Missing id for update'')"
  using missing_id_iff_no_item_has_id[of Update
      "\<lparr>daoClassName = ''UsersDao'', daoTableName = ''users'', daoSafeParse = (\<lambda>item. None),
        daoColumn = (\<lambda>c. SqlType)\<rparr>"
      "ManyEntities [[(''name'', Str ''b'')]]" "\<lambda>v m e. v"]
  by (simp add: hasColumnValue_def noId_def daoActionError_def)

section \<open>Fragments of one item\<close>







section \<open>Empty arrays\<close>







section \<open>Decimal rendering, chunks, and \<open>uniq\<close>\<close>

lemma digit_cases: "d < 10 \<Longrightarrow> d = 0 \<or> d = 1 \<or> d = 2 \<or> d = 3 \<or> d = 4 \<or> d = 5 \<or> d = 6 \<or> d = 7 \<or> d = 8 \<or> d = (9::nat)"
  by arith

lemma digitChar_value: "d < 10 \<Longrightarrow> of_char (digitChar d) = 48 + d"
  by (drule digit_cases) (auto simp: digitChar_def)

lemma digitChar_not_underscore: "d < 10 \<Longrightarrow> CHR ''_'' \<noteq> digitChar d"
  by (drule digit_cases) (auto simp: digitChar_def)

lemma digitsValue_snoc: "digitsValue (s @ [c]) = 10 * digitsValue s + (of_char c - 48)"
  by (simp add: digitsValue_def)

lemma digitsValue_numToString: "digitsValue (numToString n) = n"
proof (induction n rule: numToString.induct)
  case (1 n)
  show ?case
  proof (cases "n < 10")
    case True
    then show ?thesis
      by (subst numToString.simps) (simp add: digitsValue_def digitChar_value)
  next
    case False
    then have "digitsValue (numToString (n div 10)) = n div 10" using 1 by simp
    moreover have "n mod 10 < 10" by simp
    ultimately show ?thesis using False
      by (subst numToString.simps) (simp add: digitsValue_snoc digitChar_value)
  qed
qed

lemma numToString_inj: "numToString n = numToString m \<Longrightarrow> n = m"
  by (metis digitsValue_numToString)

lemma numToString_no_underscore: "CHR ''_'' \<notin> set (numToString n)"
proof (induction n rule: numToString.induct)
  case (1 n)
  show ?case
  proof (cases "n < 10")
    case True
    then show ?thesis
      by (subst numToString.simps) (simp add: digitChar_not_underscore)
  next
    case False
    moreover have "n mod 10 < 10" by simp
    ultimately show ?thesis using 1
      by (subst numToString.simps) (simp add: digitChar_not_underscore)
  qed
qed

lemma split_at_separator:
  "c \<notin> set a \<Longrightarrow> c \<notin> set a' \<Longrightarrow> a @ c # b = a' @ c # b' \<Longrightarrow> a = a' \<and> b = b'"
proof (induction a arbitrary: a')
  case Nil
  then show ?case by (cases a') auto
next
  case (Cons x a)
  then show ?case by (cases a') auto
qed

lemma chunkName_inj:
  "g @ ''_'' @ numToString c @ ''_'' @ numToString i = g @ ''_'' @ numToString c' @ ''_'' @ numToString i'
     \<Longrightarrow> c = c' \<and> i = i'"
proof -
  assume "g @ ''_'' @ numToString c @ ''_'' @ numToString i = g @ ''_'' @ numToString c' @ ''_'' @ numToString i'"
  then have "numToString c @ CHR ''_'' # numToString i = numToString c' @ CHR ''_'' # numToString i'"
    by simp
  from split_at_separator[OF numToString_no_underscore numToString_no_underscore this]
  show ?thesis by (auto dest: numToString_inj)
qed

lemma chunk_concat: "0 < n \<Longrightarrow> concat (chunk xs n) = xs"
proof (induction xs n rule: chunk.induct)
  case (1 xs n)
  show ?case
  proof (cases "xs = []")
    case True
    then show ?thesis by (subst chunk.simps) simp
  next
    case False
    with 1 show ?thesis by (subst chunk.simps) simp
  qed
qed

lemma chunk_Nil_iff: "0 < n \<Longrightarrow> (chunk xs n = []) = (xs = [])"
  by (subst chunk.simps) simp







section \<open>Parameters of a chunked list\<close>

lemma indexPairs_Cons:
  "indexPairs k (a # as) = map (\<lambda>i. (k, i)) [0..<length a] @ indexPairs (Suc k) as"
  by (simp add: indexPairs_def)

lemma indexPairs_fst: "p \<in> set (indexPairs k chunks) \<Longrightarrow> k \<le> fst p"
  by (auto simp: indexPairs_def in_set_enumerate_eq)

lemma distinct_indexPairs: "distinct (indexPairs k chunks)"
proof (induction chunks arbitrary: k)
  case Nil
  then show ?case by (simp add: indexPairs_def)
next
  case (Cons a as)
  have "distinct (map (\<lambda>i. (k, i)) [0..<length a])"
    by (simp add: distinct_map inj_on_def)
  moreover have "set (map (\<lambda>i. (k, i)) [0..<length a]) \<inter> set (indexPairs (Suc k) as) = {}"
    using indexPairs_fst[of _ "Suc k" as] by fastforce
  ultimately show ?case using Cons.IH[of "Suc k"] by (simp add: indexPairs_Cons)
qed

lemma chunkPairs_Cons:
  "chunkPairs g ks k (a # as) =
     map (\<lambda>(i, v). (g @ ''_'' @ numToString k @ ''_'' @ numToString i, \<lparr>value = v, key = ks\<rparr>))
       (enumerate 0 a) @ chunkPairs g ks (Suc k) as"
  by (simp add: chunkPairs_def)

lemma chunkPairs_values: "map (\<lambda>p. value (snd p)) (chunkPairs g ks k chunks) = concat chunks"
proof (induction chunks arbitrary: k)
  case Nil
  then show ?case by (simp add: chunkPairs_def)
next
  case (Cons a as)
  have "map (\<lambda>p. value (snd p))
          (map (\<lambda>(i, v). (g @ ''_'' @ numToString k @ ''_'' @ numToString i, \<lparr>value = v, key = ks\<rparr>))
            (enumerate 0 a)) = map snd (enumerate 0 a)"
    by (simp add: comp_def split_def)
  then show ?case using Cons.IH[of "Suc k"] by (simp add: chunkPairs_Cons)
qed


lemma chunkPairs_names:
  "map fst (chunkPairs g ks k chunks)
     = map (\<lambda>(c, i). g @ ''_'' @ numToString c @ ''_'' @ numToString i) (indexPairs k chunks)"
proof (induction chunks arbitrary: k)
  case Nil
  then show ?case by (simp add: chunkPairs_def indexPairs_def)
next
  case (Cons a as)
  have "map fst (map (\<lambda>(i, v). (g @ ''_'' @ numToString k @ ''_'' @ numToString i, \<lparr>value = v, key = ks\<rparr>))
            (enumerate 0 a))
      = map (\<lambda>(c, i). g @ ''_'' @ numToString c @ ''_'' @ numToString i)
          (map (\<lambda>i. (k, i)) [0..<length a])"
    by (rule nth_equalityI) (auto simp: nth_enumerate_eq)
  then show ?case using Cons.IH[of "Suc k"]
    by (simp only: chunkPairs_Cons indexPairs_Cons map_append)
qed

lemma distinct_chunkPairs: "distinct (map fst (chunkPairs g ks k chunks))"
proof -
  have "inj_on (\<lambda>(c, i). g @ ''_'' @ numToString c @ ''_'' @ numToString i) (set (indexPairs k chunks))"
  proof (rule inj_onI)
    fix p q :: "nat \<times> nat"
    obtain c i where p: "p = (c, i)" by (cases p)
    obtain c' i' where q: "q = (c', i')" by (cases q)
    assume "(case p of (c, i) \<Rightarrow> g @ ''_'' @ numToString c @ ''_'' @ numToString i)
          = (case q of (c, i) \<Rightarrow> g @ ''_'' @ numToString c @ ''_'' @ numToString i)"
    then have "g @ ''_'' @ numToString c @ ''_'' @ numToString i
             = g @ ''_'' @ numToString c' @ ''_'' @ numToString i'"
      by (simp only: p q prod.case)
    from chunkName_inj[OF this] show "p = q" by (simp add: p q)
  qed
  then show ?thesis
    by (simp add: chunkPairs_names distinct_map distinct_indexPairs)
qed




section \<open>Chunked IN lists: what the compiled predicate means\<close>

lemma render_chunkClause: "renderPred (chunkClause opr k g c) = chunkClauseSql opr k g c"
  by (simp add: chunkClause_def chunkClauseSql_def Let_def comp_def)

lemma render_listPred:
  "renderPred (listPred opr k i chunks)
     = ''('' @ join (map (chunkClauseSql opr k (k @ ''_'' @ numToString i)) (enumerate 0 chunks))
                (if opr = OpNotIn then '' AND '' else '' OR '') @ '')''"
  by (simp add: listPred_def render_chunkClause comp_def)

lemma sqlFragment_chunks:
  assumes "whitelisted opts k" "vs \<noteq> []" "opr \<noteq> OpBetween" "opr \<noteq> OpLike"
  shows "sqlFragment t a opts (Arr vs) k opr i
     = Inr (Single (i,
         ''('' @ join (map (chunkClauseSql opr k (k @ ''_'' @ numToString i))
                         (enumerate 0 (chunk vs (case inChunkSize opts of
                                                   None \<Rightarrow> DEFAULT_IN_CHUNK | Some n \<Rightarrow> n))))
                (if opr = OpNotIn then '' AND '' else '' OR '') @ '')''))"
  using assms
  by (simp add: sqlFragment_def whitelisted_def Let_def chunkClauseSql_def[abs_def] split_def
      split: option.splits cong: if_cong)

lemma sqlFragment_listPred:
  assumes "whitelisted opts k" "vs \<noteq> []" "opr \<noteq> OpBetween" "opr \<noteq> OpLike"
  shows "sqlFragment t a opts (Arr vs) k opr i
     = Inr (Single (i, renderPred (listPred opr k i
         (chunk vs (case inChunkSize opts of None \<Rightarrow> DEFAULT_IN_CHUNK | Some n \<Rightarrow> n)))))"
  by (simp only: sqlFragment_chunks[OF assms] render_listPred)

lemma keyValues_chunkPairs:
  assumes "vs \<noteq> []" "opr \<noteq> OpBetween" "opr \<noteq> OpLike"
  shows "keyValues alv t a opts (Arr vs) k opr i
     = Inr (Multiple (chunkPairs (k @ ''_'' @ numToString i) k 0
         (chunk vs (case inChunkSize opts of None \<Rightarrow> DEFAULT_IN_CHUNK | Some n \<Rightarrow> n))))"
  using assms by (simp add: keyValues_def Let_def chunkPairs_def)

lemma foldr_or3_Some:
  "foldr or3 (map (\<lambda>x. Some (P x)) xs) (Some False) = Some (\<exists>x \<in> set xs. P x)"
  by (induction xs) (auto simp: or3_Some)

lemma foldr_and3_Some:
  "foldr and3 (map (\<lambda>x. Some (P x)) xs) (Some True) = Some (\<forall>x \<in> set xs. P x)"
  by (induction xs) (auto simp: and3_Some)

lemma chunkPairs_member:
  "c < length chunks \<Longrightarrow> j < length (chunks ! c) \<Longrightarrow>
     (g @ ''_'' @ numToString (k + c) @ ''_'' @ numToString j, \<lparr>value = chunks ! c ! j, key = ks\<rparr>)
       \<in> set (chunkPairs g ks k chunks)"
  by (force simp: chunkPairs_def in_set_enumerate_eq)

lemma parameterValues_chunkPairs:
  assumes "c < length chunks" "j < length (chunks ! c)"
  shows "parameterValues sqlValue (chunkPairs g ks 0 chunks)
           (g @ ''_'' @ numToString c @ ''_'' @ numToString j) = sqlValue (chunks ! c ! j)"
proof -
  have "map_of (chunkPairs g ks 0 chunks) (g @ ''_'' @ numToString c @ ''_'' @ numToString j)
      = Some \<lparr>value = chunks ! c ! j, key = ks\<rparr>"
    using chunkPairs_member[OF assms, of g 0 ks] distinct_chunkPairs[of g ks 0 chunks]
    by (intro map_of_is_SomeI) simp_all
  then show ?thesis by (simp add: parameterValues_def)
qed


lemma ex_upt_nth: "(\<exists>i \<in> set [0..<length xs]. Q (xs ! i)) = (\<exists>x \<in> set xs. Q x)"
proof
  assume "\<exists>i \<in> set [0..<length xs]. Q (xs ! i)"
  then obtain i where "i < length xs" "Q (xs ! i)" by auto
  then show "\<exists>x \<in> set xs. Q x" using nth_mem by blast
next
  assume "\<exists>x \<in> set xs. Q x"
  then obtain x where "x \<in> set xs" "Q x" by blast
  then obtain i where "i < length xs" "xs ! i = x" by (auto simp: in_set_conv_nth)
  with \<open>Q x\<close> show "\<exists>i \<in> set [0..<length xs]. Q (xs ! i)" by auto
qed

lemma all_upt_nth: "(\<forall>i \<in> set [0..<length xs]. Q (xs ! i)) = (\<forall>x \<in> set xs. Q x)"
  using ex_upt_nth[where Q = "\<lambda>x. \<not> Q x" and xs = xs] by blast

lemma chunkClause_semantics:
  fixes sqlValue :: "jsval \<Rightarrow> 'v::linorder option"
  assumes row: "row k = Some c" and cidx: "cidx < length chunks"
    and vals: "\<forall>v \<in> set (chunks ! cidx). sqlValue v \<noteq> None"
  shows "evalPred row (parameterValues sqlValue (chunkPairs g ks 0 chunks))
           (chunkClause opr k g (cidx, chunks ! cidx))
         = Some ((c \<in> (\<lambda>v. the (sqlValue v)) ` set (chunks ! cidx)) \<noteq> (opr = OpNe \<or> opr = OpNotIn))"
proof -
  let ?ps = "parameterValues sqlValue (chunkPairs g ks 0 chunks)"
  let ?arr = "chunks ! cidx"
  have each: "compare3 (=) (Some c) (?ps (g @ ''_'' @ numToString cidx @ ''_'' @ numToString j))
        = Some (c = the (sqlValue (?arr ! j)))" if "j \<in> set [0..<length ?arr]" for j
  proof -
    from that have j: "j < length ?arr" by simp
    then have "sqlValue (?arr ! j) \<noteq> None" using vals by simp
    then obtain w where "sqlValue (?arr ! j) = Some w" by auto
    then show ?thesis
      using parameterValues_chunkPairs[OF cidx j, of sqlValue g ks] by simp
  qed
  have "map (\<lambda>j. compare3 (=) (Some c)
            (?ps (g @ ''_'' @ numToString cidx @ ''_'' @ numToString j))) [0..<length ?arr]
      = map (\<lambda>j. Some (c = the (sqlValue (?arr ! j)))) [0..<length ?arr]"
    by (rule map_cong[OF refl]) (rule each)
  then have "foldr or3 (map (\<lambda>j. compare3 (=) (Some c)
            (?ps (g @ ''_'' @ numToString cidx @ ''_'' @ numToString j))) [0..<length ?arr]) (Some False)
      = foldr or3 (map (\<lambda>j. Some (c = the (sqlValue (?arr ! j)))) [0..<length ?arr]) (Some False)"
    by (simp only:)
  also have "\<dots> = Some (\<exists>j \<in> set [0..<length ?arr]. c = the (sqlValue (?arr ! j)))"
    by (rule foldr_or3_Some)
  also have "(\<exists>j \<in> set [0..<length ?arr]. c = the (sqlValue (?arr ! j)))
           = (c \<in> (\<lambda>v. the (sqlValue v)) ` set ?arr)"
    unfolding ex_upt_nth[where Q = "\<lambda>x. c = the (sqlValue x)" and xs = ?arr] by blast
  finally have inl: "foldr or3 (map (\<lambda>j. compare3 (=) (Some c)
            (?ps (g @ ''_'' @ numToString cidx @ ''_'' @ numToString j))) [0..<length ?arr]) (Some False)
      = Some (c \<in> (\<lambda>v. the (sqlValue v)) ` set ?arr)" .
  let ?or = "foldr or3 (map (\<lambda>j. compare3 (=) (Some c)
            (?ps (g @ ''_'' @ numToString cidx @ ''_'' @ numToString j))) [0..<length ?arr]) (Some False)"
  show ?thesis
  proof (cases "opr = OpNe \<or> opr = OpNotIn")
    case True
    then have "evalPred row ?ps (chunkClause opr k g (cidx, ?arr)) = not3 ?or"
      by (simp only: chunkClause_def fst_conv snd_conv if_True evalPred.simps evalTerm.simps
          map_map comp_def row)
    also have "\<dots> = not3 (Some (c \<in> (\<lambda>v. the (sqlValue v)) ` set ?arr))"
      by (simp only: inl)
    finally show ?thesis using True by simp
  next
    case False
    then have "evalPred row ?ps (chunkClause opr k g (cidx, ?arr)) = ?or"
      by (simp only: chunkClause_def fst_conv snd_conv if_False evalPred.simps evalTerm.simps
          map_map comp_def row)
    also have "\<dots> = Some (c \<in> (\<lambda>v. the (sqlValue v)) ` set ?arr)"
      by (simp only: inl)
    finally show ?thesis using False by simp
  qed
qed

lemma listPred_semantics:
  fixes sqlValue :: "jsval \<Rightarrow> 'v::linorder option"
  assumes row: "row k = Some c"
    and vals: "\<forall>v \<in> set (concat chunks). sqlValue v \<noteq> None"
  shows "evalPred row (parameterValues sqlValue (chunkPairs g ks 0 chunks))
           (listPred opr k i' chunks)
         = (let g' = k @ ''_'' @ numToString i' in
            if g' = g then
              (if opr = OpNotIn then Some (c \<notin> (\<lambda>v. the (sqlValue v)) ` set (concat chunks))
               else if opr = OpNe
                 then Some (\<exists>arr \<in> set chunks. c \<notin> (\<lambda>v. the (sqlValue v)) ` set arr)
               else Some (c \<in> (\<lambda>v. the (sqlValue v)) ` set (concat chunks)))
            else evalPred row (parameterValues sqlValue (chunkPairs g ks 0 chunks))
                   (listPred opr k i' chunks))"
proof (cases "k @ ''_'' @ numToString i' = g")
  case False
  then show ?thesis by (simp add: Let_def)
next
  case True
  let ?ps = "parameterValues sqlValue (chunkPairs g ks 0 chunks)"
  let ?P = "\<lambda>cidx. (c \<in> (\<lambda>v. the (sqlValue v)) ` set (chunks ! cidx)) \<noteq> (opr = OpNe \<or> opr = OpNotIn)"
  have en: "enumerate 0 chunks = map (\<lambda>cidx. (cidx, chunks ! cidx)) [0..<length chunks]"
    by (rule enumerate_nth)
  have each: "evalPred row ?ps (chunkClause opr k g (cidx, chunks ! cidx)) = Some (?P cidx)"
    if "cidx \<in> set [0..<length chunks]" for cidx
  proof -
    from that have lt: "cidx < length chunks" by simp
    then have v: "\<forall>v \<in> set (chunks ! cidx). sqlValue v \<noteq> None" using vals by auto
    show ?thesis
      using chunkClause_semantics[where sqlValue = sqlValue and chunks = chunks and cidx = cidx
          and row = row and k = k and c = c and g = g and ks = ks and opr = opr] row lt v
      by blast
  qed
  have "map (\<lambda>cidx. evalPred row ?ps (chunkClause opr k g (cidx, chunks ! cidx))) [0..<length chunks]
      = map (\<lambda>cidx. Some (?P cidx)) [0..<length chunks]"
    by (rule map_cong[OF refl]) (rule each)
  then have m: "map (evalPred row ?ps) (map (chunkClause opr k g) (enumerate 0 chunks))
      = map (\<lambda>cidx. Some (?P cidx)) [0..<length chunks]"
    by (simp add: en comp_def)
  have ex: "(\<exists>cidx \<in> set [0..<length chunks]. Q (chunks ! cidx)) = (\<exists>arr \<in> set chunks. Q arr)" for Q
    by (rule ex_upt_nth)
  have al: "(\<forall>cidx \<in> set [0..<length chunks]. Q (chunks ! cidx)) = (\<forall>arr \<in> set chunks. Q arr)" for Q
    by (rule all_upt_nth)
  have unf: "evalPred row ?ps (listPred opr k i' chunks)
      = (if opr = OpNotIn
         then foldr and3 (map (evalPred row ?ps) (map (chunkClause opr k g) (enumerate 0 chunks))) (Some True)
         else foldr or3 (map (evalPred row ?ps) (map (chunkClause opr k g) (enumerate 0 chunks))) (Some False))"
    using True by (auto simp: listPred_def)
  show ?thesis
  proof (cases "opr = OpNotIn")
    case nin: True
    have "evalPred row ?ps (listPred opr k i' chunks)
        = foldr and3 (map (evalPred row ?ps) (map (chunkClause opr k g) (enumerate 0 chunks))) (Some True)"
      by (subst unf, subst if_P[OF nin], rule refl)
    then have "evalPred row ?ps (listPred opr k i' chunks)
        = Some (\<forall>cidx \<in> set [0..<length chunks]. ?P cidx)"
      by (simp only: m foldr_and3_Some)
    also have "(\<forall>cidx \<in> set [0..<length chunks]. ?P cidx)
        = (\<forall>arr \<in> set chunks. c \<notin> (\<lambda>v. the (sqlValue v)) ` set arr)"
      using nin al[of "\<lambda>arr. c \<notin> (\<lambda>v. the (sqlValue v)) ` set arr"] by simp
    also have "\<dots> = (c \<notin> (\<lambda>v. the (sqlValue v)) ` set (concat chunks))"
      by auto
    finally show ?thesis using nin True by (simp add: Let_def)
  next
    case notnin: False
    have "evalPred row ?ps (listPred opr k i' chunks)
        = foldr or3 (map (evalPred row ?ps) (map (chunkClause opr k g) (enumerate 0 chunks))) (Some False)"
      by (subst unf, subst if_not_P[OF notnin], rule refl)
    then have any: "evalPred row ?ps (listPred opr k i' chunks)
        = Some (\<exists>cidx \<in> set [0..<length chunks]. ?P cidx)"
      by (simp only: m foldr_or3_Some)
    show ?thesis
    proof (cases "opr = OpNe")
      case True
      have "(\<exists>cidx \<in> set [0..<length chunks]. ?P cidx)
          = (\<exists>arr \<in> set chunks. c \<notin> (\<lambda>v. the (sqlValue v)) ` set arr)"
        using True ex[of "\<lambda>arr. c \<notin> (\<lambda>v. the (sqlValue v)) ` set arr"] by simp
      with any show ?thesis using True notnin \<open>k @ ''_'' @ numToString i' = g\<close>
        by (simp add: Let_def)
    next
      case False
      have "(\<exists>cidx \<in> set [0..<length chunks]. ?P cidx)
          = (\<exists>arr \<in> set chunks. c \<in> (\<lambda>v. the (sqlValue v)) ` set arr)"
        using False notnin ex[of "\<lambda>arr. c \<in> (\<lambda>v. the (sqlValue v)) ` set arr"] by simp
      also have "\<dots> = (c \<in> (\<lambda>v. the (sqlValue v)) ` set (concat chunks))"
        by auto
      finally show ?thesis using any False notnin \<open>k @ ''_'' @ numToString i' = g\<close>
        by (simp add: Let_def)
    qed
  qed
qed


lemma listPred_eval:
  fixes sqlValue :: "jsval \<Rightarrow> 'v::linorder option"
  assumes row: "row k = Some c"
    and vals: "\<forall>v \<in> set (concat chunks). sqlValue v \<noteq> None"
  shows "evalPred row (parameterValues sqlValue (chunkPairs (k @ ''_'' @ numToString i) ks 0 chunks))
           (listPred opr k i chunks)
         = (if opr = OpNotIn then Some (c \<notin> (\<lambda>v. the (sqlValue v)) ` set (concat chunks))
            else if opr = OpNe
              then Some (\<exists>arr \<in> set chunks. c \<notin> (\<lambda>v. the (sqlValue v)) ` set arr)
            else Some (c \<in> (\<lambda>v. the (sqlValue v)) ` set (concat chunks)))"
proof -
  have "evalPred row (parameterValues sqlValue (chunkPairs (k @ ''_'' @ numToString i) ks 0 chunks))
           (listPred opr k i chunks)
         = (let g' = k @ ''_'' @ numToString i in
            if g' = k @ ''_'' @ numToString i then
              (if opr = OpNotIn then Some (c \<notin> (\<lambda>v. the (sqlValue v)) ` set (concat chunks))
               else if opr = OpNe
                 then Some (\<exists>arr \<in> set chunks. c \<notin> (\<lambda>v. the (sqlValue v)) ` set arr)
               else Some (c \<in> (\<lambda>v. the (sqlValue v)) ` set (concat chunks)))
            else evalPred row (parameterValues sqlValue (chunkPairs (k @ ''_'' @ numToString i) ks 0 chunks))
                   (listPred opr k i chunks))"
    by (rule listPred_semantics[where row = row and k = k and c = c and chunks = chunks
          and sqlValue = sqlValue and g = "k @ ''_'' @ numToString i" and i' = i
          and ks = ks and opr = opr, OF row vals])
  then show ?thesis
    unfolding Let_def by (subst (asm) if_P[OF refl])
qed

text \<open>
  What the claim C1 says of IN, of the default \<open>=\<close>, and of NOT IN holds: the fragment of a
  non-empty array is the rendering of one IN (or NOT IN) clause per chunk, joined by OR
  (or AND); the bound parameters are the elements, chunk by chunk; and a row whose column
  is not NULL satisfies the predicate exactly when the column value is (or is not) among
  the bound values, wherever the chunk boundaries fall. Under \<open>!=\<close> the predicate holds as
  soon as one chunk does not contain the column value.
\<close>

lemma in_list_compiled:
  fixes sqlValue :: "jsval \<Rightarrow> 'v::linorder option"
  assumes wl: "whitelisted opts k" and ne: "vs \<noteq> []" and n: "inChunkSize opts \<noteq> Some 0"
    and row: "row k = Some c" and vals: "\<forall>v \<in> set vs. sqlValue v \<noteq> None"
    and opr: "opr \<noteq> OpBetween" "opr \<noteq> OpLike"
  shows "\<exists>q ps chunks.
           chunks = chunk vs (case inChunkSize opts of None \<Rightarrow> DEFAULT_IN_CHUNK | Some n \<Rightarrow> n)
         \<and> concat chunks = vs
         \<and> sqlFragment t a opts (Arr vs) k opr i = Inr (Single (i, renderPred q))
         \<and> keyValues alv t a opts (Arr vs) k opr i = Inr (Multiple ps)
         \<and> map (\<lambda>p. value (snd p)) ps = vs
         \<and> satisfied row (parameterValues sqlValue ps) q
             = (if opr = OpNotIn then c \<notin> (\<lambda>v. the (sqlValue v)) ` set vs
                else if opr = OpNe then \<exists>arr \<in> set chunks. c \<notin> (\<lambda>v. the (sqlValue v)) ` set arr
                else c \<in> (\<lambda>v. the (sqlValue v)) ` set vs)"
proof -
  let ?n = "case inChunkSize opts of None \<Rightarrow> DEFAULT_IN_CHUNK | Some n \<Rightarrow> n"
  let ?chunks = "chunk vs ?n"
  let ?ps = "chunkPairs (k @ ''_'' @ numToString i) k 0 ?chunks"
  have pos: "0 < ?n" using n by (auto simp: DEFAULT_IN_CHUNK_def split: option.splits)
  have cc: "concat ?chunks = vs" by (rule chunk_concat[OF pos])
  have vals': "\<forall>v \<in> set (concat ?chunks). sqlValue v \<noteq> None" using vals by (simp only: cc)
  have ev: "evalPred row (parameterValues sqlValue ?ps) (listPred opr k i ?chunks)
      = (if opr = OpNotIn then Some (c \<notin> (\<lambda>v. the (sqlValue v)) ` set (concat ?chunks))
         else if opr = OpNe
           then Some (\<exists>arr \<in> set ?chunks. c \<notin> (\<lambda>v. the (sqlValue v)) ` set arr)
         else Some (c \<in> (\<lambda>v. the (sqlValue v)) ` set (concat ?chunks)))"
    by (rule listPred_eval[where row = row and k = k and c = c and chunks = ?chunks
          and sqlValue = sqlValue, OF row vals'])
  have sem: "satisfied row (parameterValues sqlValue ?ps) (listPred opr k i ?chunks)
      = (if opr = OpNotIn then c \<notin> (\<lambda>v. the (sqlValue v)) ` set vs
         else if opr = OpNe then \<exists>arr \<in> set ?chunks. c \<notin> (\<lambda>v. the (sqlValue v)) ` set arr
         else c \<in> (\<lambda>v. the (sqlValue v)) ` set vs)"
    unfolding satisfied_def ev cc by simp
  have vs: "map (\<lambda>p. value (snd p)) ?ps = vs"
    by (simp only: chunkPairs_values cc)
  show ?thesis
  proof (intro exI conjI)
    show "?chunks = chunk vs ?n" by (rule refl)
    show "concat ?chunks = vs" by (rule cc)
    show "sqlFragment t a opts (Arr vs) k opr i = Inr (Single (i, renderPred (listPred opr k i ?chunks)))"
      by (rule sqlFragment_listPred[OF wl ne opr])
    show "keyValues alv t a opts (Arr vs) k opr i = Inr (Multiple ?ps)"
      by (rule keyValues_chunkPairs[OF ne opr])
    show "map (\<lambda>p. value (snd p)) ?ps = vs" by (rule vs)
    show "satisfied row (parameterValues sqlValue ?ps) (listPred opr k i ?chunks)
      = (if opr = OpNotIn then c \<notin> (\<lambda>v. the (sqlValue v)) ` set vs
         else if opr = OpNe then \<exists>arr \<in> set ?chunks. c \<notin> (\<lambda>v. the (sqlValue v)) ` set arr
         else c \<in> (\<lambda>v. the (sqlValue v)) ` set vs)"
      by (rule sem)
  qed
qed

section \<open>Delete by id\<close>






lemma sqlFragment_id_array:
  "\<exists>frag. sqlFragment t a (noOptions\<lparr>inChunkSize := c\<rparr>) (Arr u) ''id'' OpEq 0 = Inr (Single (0, frag))"
  by (simp add: sqlFragment_def Let_def noOptions_def)








end
